theory Spec2Isabelle
  imports
    Main
    "HOL-Library.Multiset"
    "HOL-Library.List_Lexorder"
    "HOL-Library.Product_Lexorder"
begin

section \<open>JavaScript strings and numbers\<close>

text \<open>
  A JavaScript string is modelled as a \<^typ>\<open>string\<close>, one \<^typ>\<open>char\<close> per code unit.
  The character classes below are the ASCII part of the ECMAScript ones: code units
  above 127 are neither white space nor letters with a lower-case form.
\<close>

definition isWhiteSpace :: "char \<Rightarrow> bool" where
  "isWhiteSpace c = (c \<in> set [CHR 0x09, CHR 0x0A, CHR 0x0B, CHR 0x0C, CHR 0x0D, CHR 0x20])"

definition isLineTerminator :: "char \<Rightarrow> bool" where
  "isLineTerminator c = (c = CHR 0x0A \<or> c = CHR 0x0D)"

definition isDigit :: "char \<Rightarrow> bool" where
  "isDigit c = (c \<in> set ''0123456789'')"

text \<open>\<^verbatim>\<open>String.prototype.trim\<close>.\<close>

definition trim :: "string \<Rightarrow> string" where
  "trim s = rev (dropWhile isWhiteSpace (rev (dropWhile isWhiteSpace s)))"

definition lowerChar :: "char \<Rightarrow> char" where
  "lowerChar c =
     (case map_of (zip ''ABCDEFGHIJKLMNOPQRSTUVWXYZ'' ''abcdefghijklmnopqrstuvwxyz'') c of
        None \<Rightarrow> c
      | Some l \<Rightarrow> l)"

text \<open>\<^verbatim>\<open>String.prototype.toLowerCase\<close>.\<close>

definition toLowerCase :: "string \<Rightarrow> string" where
  "toLowerCase s = map lowerChar s"

text \<open>\<^verbatim>\<open>s.startsWith(p)\<close> and \<^verbatim>\<open>s.endsWith(p)\<close>.\<close>

definition startsWith :: "string \<Rightarrow> string \<Rightarrow> bool" where
  "startsWith s p = (take (length p) s = p)"

definition endsWith :: "string \<Rightarrow> string \<Rightarrow> bool" where
  "endsWith s p = (length p \<le> length s \<and> drop (length s - length p) s = p)"

text \<open>\<^verbatim>\<open>s.split(c)\<close> for a one-character separator: never the empty list.\<close>

fun splitOn :: "char \<Rightarrow> string \<Rightarrow> string list" where
  "splitOn c [] = [[]]"
| "splitOn c (x # xs) =
     (if x = c then [] # splitOn c xs
      else (case splitOn c xs of
              [] \<Rightarrow> [[x]]
            | p # ps \<Rightarrow> (x # p) # ps))"

text \<open>\<^verbatim>\<open>parts.join(" ")\<close>.\<close>

fun joinWith :: "char \<Rightarrow> string list \<Rightarrow> string" where
  "joinWith c [] = []"
| "joinWith c [p] = p"
| "joinWith c (p # q # ps) = p @ c # joinWith c (q # ps)"

text \<open>\<^verbatim>\<open>s.slice(0, -k)\<close> for a positive \<open>k\<close>.\<close>

definition sliceOffEnd :: "string \<Rightarrow> nat \<Rightarrow> string" where
  "sliceOffEnd s k = take (length s - k) s"

text \<open>\<^verbatim>\<open>s.replace(/\.$/, "")\<close>: one trailing dot is removed.\<close>

definition stripTrailingDot :: "string \<Rightarrow> string" where
  "stripTrailingDot s = (if s \<noteq> [] \<and> last s = CHR ''.'' then butlast s else s)"

text \<open>
  \<^verbatim>\<open>s.replace(/^"|"$/g, "")\<close>: a leading double quote is removed, and then a
  trailing one of what is left.
\<close>

definition stripQuotes :: "string \<Rightarrow> string" where
  "stripQuotes s =
     (let t = (case s of [] \<Rightarrow> [] | c # cs \<Rightarrow> if c = CHR 0x22 then cs else s)
      in if t \<noteq> [] \<and> last t = CHR 0x22 then butlast t else t)"

text \<open>
  \<^verbatim>\<open>parseInt(s, 10)\<close>: leading white space, an optional sign, then the longest run
  of decimal digits; \<open>None\<close> is \<^verbatim>\<open>NaN\<close>. An absent array element
  (\<^verbatim>\<open>parts[i]\<close> out of range) is \<^verbatim>\<open>undefined\<close>, which parses to \<^verbatim>\<open>NaN\<close>.
\<close>

definition digitValue :: "char \<Rightarrow> nat" where
  "digitValue c = length (takeWhile (\<lambda>d. d \<noteq> c) ''0123456789'')"

definition parseInt :: "string option \<Rightarrow> int option" where
  "parseInt so =
     (case so of
        None \<Rightarrow> None
      | Some s \<Rightarrow>
          (let t = dropWhile isWhiteSpace s;
               neg = (t \<noteq> [] \<and> hd t = CHR ''-'');
               u = (if t \<noteq> [] \<and> (hd t = CHR ''-'' \<or> hd t = CHR ''+'') then tl t else t);
               ds = takeWhile isDigit u
           in if ds = [] then None
              else Some ((if neg then - 1 else 1) *
                         int (foldl (\<lambda>a c. 10 * a + digitValue c) 0 ds))))"

text \<open>\<^verbatim>\<open>x || 0\<close> on a number: \<^verbatim>\<open>NaN\<close> and \<open>0\<close> give \<open>0\<close>.\<close>

definition orZero :: "int option \<Rightarrow> int" where
  "orZero x = (case x of None \<Rightarrow> 0 | Some n \<Rightarrow> n)"

text \<open>\<^verbatim>\<open>parts[i]\<close>.\<close>

definition at :: "'a list \<Rightarrow> nat \<Rightarrow> 'a option" where
  "at xs i = (if i < length xs then Some (xs ! i) else None)"

text \<open>\<^verbatim>\<open>parts[i]?.replace(/\.$/, "") || ""\<close>.\<close>

definition hostOrEmpty :: "string option \<Rightarrow> string" where
  "hostOrEmpty so = (case so of None \<Rightarrow> [] | Some s \<Rightarrow> stripTrailingDot s)"

text \<open>The decimal digits of a number, as a template literal prints an integer.\<close>

fun natToString :: "nat \<Rightarrow> string" where
  "natToString n =
     (if n < 10 then [''0123456789'' ! n]
      else natToString (n div 10) @ [''0123456789'' ! (n mod 10)])"

definition intToString :: "int \<Rightarrow> string" where
  "intToString i = (if i < 0 then CHR ''-'' # natToString (nat (- i)) else natToString (nat i))"

text \<open>
  A JavaScript \<^verbatim>\<open>Set\<close> keeps its elements in insertion order; it is a list without
  repetition, \<^verbatim>\<open>add\<close> appends an element that is not there yet and \<^verbatim>\<open>has\<close> is
  membership.
\<close>

definition setAdd :: "'a list \<Rightarrow> 'a \<Rightarrow> 'a list" where
  "setAdd s x = (if x \<in> set s then s else s @ [x])"

definition has :: "'a list \<Rightarrow> 'a \<Rightarrow> bool" where
  "has s x = (x \<in> set s)"

text \<open>\<^verbatim>\<open>new Set(xs)\<close>.\<close>

definition newSet :: "'a list \<Rightarrow> 'a list" where
  "newSet xs = foldl setAdd [] xs"

section \<open>The data model of \<^verbatim>\<open>routes/api/dns.ts\<close>\<close>

datatype RecordType = TypeA | TypeAAAA | TypeCNAME | TypeMX | TypeNS | TypeTXT | TypeSOA | TypeSRV

text \<open>The string a \<^verbatim>\<open>RecordType\<close> is at run time.\<close>

fun typeName :: "RecordType \<Rightarrow> string" where
  "typeName TypeA = ''A''"
| "typeName TypeAAAA = ''AAAA''"
| "typeName TypeCNAME = ''CNAME''"
| "typeName TypeMX = ''MX''"
| "typeName TypeNS = ''NS''"
| "typeName TypeTXT = ''TXT''"
| "typeName TypeSOA = ''SOA''"
| "typeName TypeSRV = ''SRV''"

fun DNS_TYPE_MAP :: "RecordType \<Rightarrow> int" where
  "DNS_TYPE_MAP TypeA = 1"
| "DNS_TYPE_MAP TypeAAAA = 28"
| "DNS_TYPE_MAP TypeCNAME = 5"
| "DNS_TYPE_MAP TypeMX = 15"
| "DNS_TYPE_MAP TypeNS = 2"
| "DNS_TYPE_MAP TypeTXT = 16"
| "DNS_TYPE_MAP TypeSOA = 6"
| "DNS_TYPE_MAP TypeSRV = 33"

datatype Resolver = Google | Cloudflare

fun RESOLVER_URLS :: "Resolver \<Rightarrow> string" where
  "RESOLVER_URLS Google = ''https://dns.google/resolve''"
| "RESOLVER_URLS Cloudflare = ''https://cloudflare-dns.com/dns-query''"

fun resolverName :: "Resolver \<Rightarrow> string" where
  "resolverName Google = ''google''"
| "resolverName Cloudflare = ''cloudflare''"

text \<open>
  The \<^verbatim>\<open>value\<close> of a record, \<^verbatim>\<open>string | object\<close>: a string, or the object
  \<^verbatim>\<open>parseRecord\<close> builds for MX, SOA and SRV. The MX preference is a bare
  \<^verbatim>\<open>parseInt\<close> and may be \<^verbatim>\<open>NaN\<close>.
\<close>

datatype RecordValue =
    StringValue string
  | MxValue "int option" string
  | SoaValue string string int int int int int
  | SrvValue int int int string

record DnsRecord =
  rname :: string
  rtype :: string
  ttl :: int
  rvalue :: RecordValue

record QueryResult =
  subdomain :: string
  qtype :: string
  records :: "DnsRecord list"
  error :: "string option"
  dnssecValid :: "bool option"

record WildcardInfo =
  hasWildcard :: bool
  wildcardTargets :: "string list"
  wildcardCname :: "string option"

record DnsAnswer =
  aname :: string
  atype :: int
  aTTL :: int
  adata :: string

record DnsApiResponse =
  Status :: int
  AD :: "bool option"
  Answer :: "DnsAnswer list option"

definition QUERIES_TO_RUN :: "(string \<times> RecordType list) list" where
  "QUERIES_TO_RUN =
    [(''@'', [TypeA, TypeAAAA, TypeTXT, TypeMX, TypeSOA]),
     (''@'', [TypeNS]),
     (''www'', [TypeA, TypeAAAA, TypeCNAME]),
     (''mail'', [TypeA, TypeAAAA, TypeCNAME]),
     (''ftp'', [TypeA, TypeAAAA, TypeCNAME]),
     (''smtp'', [TypeA, TypeAAAA, TypeCNAME]),
     (''pop'', [TypeA, TypeAAAA, TypeCNAME]),
     (''imap'', [TypeA, TypeAAAA, TypeCNAME]),
     (''webmail'', [TypeA, TypeAAAA, TypeCNAME]),
     (''_dmarc'', [TypeTXT]),
     (''_mta-sts'', [TypeTXT]),
     (''_smtp._tls'', [TypeTXT]),
     (''autodiscover'', [TypeCNAME, TypeA]),
     (''lyncdiscover'', [TypeCNAME, TypeA]),
     (''sip'', [TypeCNAME, TypeA]),
     (''enterpriseregistration'', [TypeCNAME]),
     (''enterpriseenrollment'', [TypeCNAME]),
     (''_sipfederationtls._tcp'', [TypeSRV]),
     (''_sip._tls'', [TypeSRV]),
     (''autoconfig'', [TypeCNAME, TypeA]),
     (''selector1._domainkey'', [TypeTXT, TypeCNAME]),
     (''selector2._domainkey'', [TypeTXT, TypeCNAME]),
     (''google._domainkey'', [TypeTXT, TypeCNAME]),
     (''s1._domainkey'', [TypeTXT, TypeCNAME]),
     (''s2._domainkey'', [TypeTXT, TypeCNAME]),
     (''k2._domainkey'', [TypeTXT, TypeCNAME]),
     (''k3._domainkey'', [TypeTXT, TypeCNAME]),
     (''default._domainkey'', [TypeTXT, TypeCNAME]),
     (''transip-a._domainkey'', [TypeTXT, TypeCNAME]),
     (''transip-b._domainkey'', [TypeTXT, TypeCNAME]),
     (''transip-c._domainkey'', [TypeTXT, TypeCNAME]),
     (''x-transip-mail-auth'', [TypeTXT, TypeCNAME]),
     (''_dkim'', [TypeTXT]),
     (''_domainkey'', [TypeTXT])]"

text \<open>
  Subdomains that are filtered when they match the wildcard: not the root \<open>@\<close>, not the
  underscore-prefixed names.
\<close>

definition WILDCARD_FILTERED_SUBDOMAINS :: "string list" where
  "WILDCARD_FILTERED_SUBDOMAINS =
     filter (\<lambda>s. s \<noteq> ''@'' \<and> \<not> startsWith s ''_'') (map fst QUERIES_TO_RUN)"

definition WILDCARD_AFFECTED_TYPES :: "string list" where
  "WILDCARD_AFFECTED_TYPES = newSet [''A'', ''AAAA'', ''CNAME'', ''TXT'', ''CAA'']"

section \<open>\<^verbatim>\<open>parseRecord\<close>\<close>

definition parseRecord :: "DnsAnswer \<Rightarrow> RecordType \<Rightarrow> DnsRecord" where
  "parseRecord answer t =
     (let v =
        (case t of
           TypeMX \<Rightarrow>
             (let parts = splitOn CHR '' '' (adata answer)
              in MxValue (parseInt (at parts 0))
                         (stripTrailingDot (joinWith CHR '' '' (drop 1 parts))))
         | TypeSOA \<Rightarrow>
             (let parts = splitOn CHR '' '' (adata answer)
              in SoaValue (hostOrEmpty (at parts 0)) (hostOrEmpty (at parts 1))
                          (orZero (parseInt (at parts 2))) (orZero (parseInt (at parts 3)))
                          (orZero (parseInt (at parts 4))) (orZero (parseInt (at parts 5)))
                          (orZero (parseInt (at parts 6))))
         | TypeSRV \<Rightarrow>
             (let parts = splitOn CHR '' '' (adata answer)
              in SrvValue (orZero (parseInt (at parts 0))) (orZero (parseInt (at parts 1)))
                          (orZero (parseInt (at parts 2))) (hostOrEmpty (at parts 3)))
         | TypeTXT \<Rightarrow> StringValue (stripQuotes (adata answer))
         | TypeCNAME \<Rightarrow> StringValue (stripTrailingDot (adata answer))
         | TypeNS \<Rightarrow> StringValue (stripTrailingDot (adata answer))
         | _ \<Rightarrow> StringValue (adata answer))
      in \<lparr>rname = stripTrailingDot (aname answer), rtype = typeName t,
          ttl = aTTL answer, rvalue = v\<rparr>)"

section \<open>The network, as far as the program sees it\<close>

text \<open>
  A thrown value: an \<^verbatim>\<open>Error\<close> with its message, or anything else. A \<^verbatim>\<open>fetch\<close>
  either rejects or resolves to a response with its \<^verbatim>\<open>ok\<close> flag, its status and
  its body, whose \<^verbatim>\<open>json()\<close> either rejects or gives a \<^verbatim>\<open>DnsApiResponse\<close>.
\<close>

datatype thrown = ErrorObject string | OtherValue

datatype jsonBody = JsonThrows thrown | JsonValue DnsApiResponse

datatype dnsFetch = FetchThrows thrown | FetchResponse bool nat jsonBody

text \<open>
  A request to a resolver: base URL, the \<^verbatim>\<open>name\<close> and \<^verbatim>\<open>type\<close> parameters,
  whether \<^verbatim>\<open>do=true\<close> is sent, and whether the \<^verbatim>\<open>Accept: application/dns-json\<close>
  header is.
\<close>

datatype dnsRequest = DnsRequest string string string bool bool

section \<open>\<^verbatim>\<open>queryDns\<close>\<close>

definition queryDnsRequest :: "string \<Rightarrow> string \<Rightarrow> RecordType \<Rightarrow> Resolver \<Rightarrow> bool \<Rightarrow> dnsRequest" where
  "queryDnsRequest domain sub t resolver requestDnssec =
     (let fullDomain = (if sub = ''@'' then domain else sub @ ''.'' @ domain);
          typeNum = DNS_TYPE_MAP t;
          baseUrl = RESOLVER_URLS resolver
      in DnsRequest baseUrl fullDomain (intToString typeNum) requestDnssec
           (resolver = Cloudflare))"

text \<open>The \<^verbatim>\<open>try\<close> block: \<open>Inl\<close> is an exception that leaves it.\<close>

definition queryDnsTry ::
  "(dnsRequest \<Rightarrow> dnsFetch) \<Rightarrow> string \<Rightarrow> string \<Rightarrow> RecordType \<Rightarrow> Resolver \<Rightarrow> bool
     \<Rightarrow> thrown + QueryResult" where
  "queryDnsTry net domain sub t resolver requestDnssec =
     (let typeNum = DNS_TYPE_MAP t
      in case net (queryDnsRequest domain sub t resolver requestDnssec) of
           FetchThrows e \<Rightarrow> Inl e
         | FetchResponse ok status body \<Rightarrow>
             if \<not> ok then
               Inr \<lparr>subdomain = sub, qtype = typeName t, records = [],
                    error = Some (''HTTP '' @ natToString status), dnssecValid = None\<rparr>
             else
               (case body of
                  JsonThrows e \<Rightarrow> Inl e
                | JsonValue data \<Rightarrow>
                    if Status data \<noteq> 0 then
                      (if Status data = 3 then
                         Inr \<lparr>subdomain = sub, qtype = typeName t, records = [],
                              error = None, dnssecValid = None\<rparr>
                       else
                         Inr \<lparr>subdomain = sub, qtype = typeName t, records = [],
                              error = Some (''DNS error: '' @ intToString (Status data)),
                              dnssecValid = None\<rparr>)
                    else
                      (case Answer data of
                         None \<Rightarrow>
                           Inr \<lparr>subdomain = sub, qtype = typeName t, records = [],
                                error = None, dnssecValid = None\<rparr>
                       | Some answers \<Rightarrow>
                           Inr \<lparr>subdomain = sub, qtype = typeName t,
                                records = map (\<lambda>a. parseRecord a t)
                                            (filter (\<lambda>a. atype a = typeNum) answers),
                                error = None, dnssecValid = AD data\<rparr>)))"

text \<open>
  \<^verbatim>\<open>err instanceof Error ? err.message : "Query failed"\<close>.
\<close>

definition errorMessage :: "thrown \<Rightarrow> string" where
  "errorMessage err = (case err of ErrorObject m \<Rightarrow> m | OtherValue \<Rightarrow> ''Query failed'')"

text \<open>
  \<^verbatim>\<open>queryDns\<close>, the \<^verbatim>\<open>try\<close> block with its \<^verbatim>\<open>catch\<close>. The result is a sum so
  that a rejected promise would be a value \<open>Inl\<close>.
\<close>

definition queryDns ::
  "(dnsRequest \<Rightarrow> dnsFetch) \<Rightarrow> string \<Rightarrow> string \<Rightarrow> RecordType \<Rightarrow> Resolver \<Rightarrow> bool
     \<Rightarrow> thrown + QueryResult" where
  "queryDns net domain sub t resolver requestDnssec =
     (case queryDnsTry net domain sub t resolver requestDnssec of
        Inr result \<Rightarrow> Inr result
      | Inl err \<Rightarrow>
          Inr \<lparr>subdomain = sub, qtype = typeName t, records = [],
               error = Some (errorMessage err), dnssecValid = None\<rparr>)"

section \<open>\<^verbatim>\<open>detectWildcard\<close>\<close>

definition typesToCheck :: "string list" where
  "typesToCheck = [''A'', ''AAAA'', ''TXT'', ''CAA'']"

definition probeRequest :: "string \<Rightarrow> Resolver \<Rightarrow> string \<Rightarrow> dnsRequest" where
  "probeRequest testDomain resolver t =
     DnsRequest (RESOLVER_URLS resolver) testDomain t False (resolver = Cloudflare)"

text \<open>\<^verbatim>\<open>fetch(...).then((res) => res.json()).catch(() => null)\<close>.\<close>

definition probeData :: "dnsFetch \<Rightarrow> DnsApiResponse option" where
  "probeData f =
     (case f of
        FetchThrows e \<Rightarrow> None
      | FetchResponse ok status body \<Rightarrow>
          (case body of JsonThrows e \<Rightarrow> None | JsonValue data \<Rightarrow> Some data))"

definition wildcardAnswer :: "string list \<times> string option \<Rightarrow> DnsAnswer \<Rightarrow> string list \<times> string option" where
  "wildcardAnswer st a =
     (let v = stripQuotes (stripTrailingDot (adata a))
      in (setAdd (fst st) v, if atype a = 5 then Some v else snd st))"

definition wildcardResponse ::
  "string list \<times> string option \<Rightarrow> DnsApiResponse option \<Rightarrow> string list \<times> string option" where
  "wildcardResponse st r =
     (case r of
        None \<Rightarrow> st
      | Some data \<Rightarrow>
          (if Status data = 0 then
             (case Answer data of None \<Rightarrow> st | Some answers \<Rightarrow> foldl wildcardAnswer st answers)
           else st))"

definition detectWildcard ::
  "(dnsRequest \<Rightarrow> dnsFetch) \<Rightarrow> int \<Rightarrow> string \<Rightarrow> Resolver \<Rightarrow> WildcardInfo" where
  "detectWildcard net now domain resolver =
     (let testDomain = ''_wildcard-test-'' @ intToString now @ ''.'' @ domain;
          responses = map (\<lambda>t. probeData (net (probeRequest testDomain resolver t))) typesToCheck;
          st = foldl wildcardResponse ([], None) responses
      in \<lparr>hasWildcard = (length (fst st) > 0), wildcardTargets = fst st,
          wildcardCname = snd st\<rparr>)"

definition detectWildcardCalls :: "int \<Rightarrow> string \<Rightarrow> Resolver \<Rightarrow> dnsRequest list" where
  "detectWildcardCalls now domain resolver =
     map (probeRequest (''_wildcard-test-'' @ intToString now @ ''.'' @ domain) resolver)
       typesToCheck"

section \<open>Certificate Transparency discovery, \<^verbatim>\<open>fetchCtSubdomains\<close>\<close>

text \<open>
  An entry of the crt.sh answer. \<^verbatim>\<open>not_after\<close> is held as the time value of
  \<^verbatim>\<open>new Date(entry.not_after)\<close>, \<open>None\<close> for an invalid date (whose comparison
  with any date is false).
\<close>

record CrtShEntry =
  name_value :: string
  not_after :: "int option"

text \<open>
  What \<^verbatim>\<open>fetch(crtUrl)\<close> gives: it rejects, or resolves to a response with its
  \<^verbatim>\<open>ok\<close> flag and a body; \<^verbatim>\<open>response.text()\<close> rejects, or the text is empty or
  blank, or \<^verbatim>\<open>JSON.parse\<close> throws on it, or it parses to the entries.
\<close>

datatype crtBody = TextThrows | BlankText | Unparsable | Entries "CrtShEntry list"

datatype crtFetch = CrtThrows | CrtResponse bool crtBody

record CtResult =
  subdomains :: "string list"
  totalCerts :: nat
  activeCerts :: nat

record CtCacheEntry = CtResult +
  cachedAt :: int

record CtData = CtResult +
  cached :: "bool option"

text \<open>
  The Deno KV store: whether \<^verbatim>\<open>getKv\<close> gives a store, whether its \<^verbatim>\<open>get\<close> and
  \<^verbatim>\<open>set\<close> throw, and the entries it holds by key.
\<close>

record kvStore =
  kvOpens :: bool
  kvGetThrows :: bool
  kvSetThrows :: bool
  kvEntries :: "string list \<Rightarrow> CtCacheEntry option"

text \<open>Everything the program sends out: resolver queries, the crt.sh query, KV accesses.\<close>

datatype call = DnsCall dnsRequest | CrtCall string | KvGet "string list" | KvSet "string list"

definition CT_CACHE_TTL_MS :: int where
  "CT_CACHE_TTL_MS = 60 * 60 * 1000"

text \<open>The first \<^verbatim>\<open>try\<close> block: the cache hit it returns, if it returns.\<close>

definition ctCacheRead :: "kvStore \<Rightarrow> int \<Rightarrow> string list \<Rightarrow> CtData option" where
  "ctCacheRead store now cacheKey =
     (if kvOpens store then
        (if kvGetThrows store then None
         else (case kvEntries store cacheKey of
                 None \<Rightarrow> None
               | Some v \<Rightarrow>
                   if now - cachedAt v < CT_CACHE_TTL_MS then
                     Some \<lparr>subdomains = subdomains v, totalCerts = totalCerts v,
                           activeCerts = activeCerts v, cached = Some True\<rparr>
                   else None))
      else None)"

text \<open>\<^verbatim>\<open>entries.filter((entry) => new Date(entry.not_after) > now)\<close>.\<close>

definition activeCertsOf :: "int \<Rightarrow> CrtShEntry list \<Rightarrow> CrtShEntry list" where
  "activeCertsOf now entries =
     filter (\<lambda>entry. case not_after entry of None \<Rightarrow> False | Some t \<Rightarrow> t > now) entries"

definition entryNames :: "CrtShEntry \<Rightarrow> string list" where
  "entryNames entry = map (\<lambda>n. toLowerCase (trim n)) (splitOn CHR 0x0A (name_value entry))"

text \<open>The body of the inner loop, for one name.\<close>

definition ctName :: "string \<Rightarrow> string list \<Rightarrow> string \<Rightarrow> string list" where
  "ctName domain subdomainSet name =
     (if name = [] \<or> startsWith name ''*'' \<or> name = domain
         \<or> \<not> endsWith name (''.'' @ domain)
      then subdomainSet
      else (let sub = sliceOffEnd name (length domain + 1)
            in if sub \<noteq> [] \<and> CHR ''@'' \<notin> set sub \<and> CHR '' '' \<notin> set sub
               then setAdd subdomainSet sub else subdomainSet))"

definition ctSubdomainSet :: "string \<Rightarrow> CrtShEntry list \<Rightarrow> string list" where
  "ctSubdomainSet domain active =
     foldl (\<lambda>subdomainSet entry. foldl (ctName domain) subdomainSet (entryNames entry)) [] active"

definition ctResult :: "string \<Rightarrow> int \<Rightarrow> CrtShEntry list \<Rightarrow> CtResult" where
  "ctResult domain now entries =
     (let active = activeCertsOf now entries
      in \<lparr>subdomains = ctSubdomainSet domain active, totalCerts = length entries,
          activeCerts = length active\<rparr>)"

definition zeroCt :: CtData where
  "zeroCt = \<lparr>subdomains = [], totalCerts = 0, activeCerts = 0, cached = None\<rparr>"

text \<open>
  \<^verbatim>\<open>fetchCtSubdomains\<close> with the clock read at the cache lookup, at the expiry filter
  and at the cache write. It returns its result, the calls it made and the store it
  leaves.
\<close>

definition fetchCtSubdomains ::
  "kvStore \<Rightarrow> (string \<Rightarrow> crtFetch) \<Rightarrow> int \<Rightarrow> int \<Rightarrow> int \<Rightarrow> string
     \<Rightarrow> CtData \<times> call list \<times> kvStore" where
  "fetchCtSubdomains store crt nowLookup nowFilter nowStore domain =
     (let cacheKey = [''ct'', domain];
          getCalls = (if kvOpens store then [KvGet cacheKey] else [])
      in case ctCacheRead store nowLookup cacheKey of
           Some hit \<Rightarrow> (hit, getCalls, store)
         | None \<Rightarrow>
             (case crt domain of
                CrtThrows \<Rightarrow> (zeroCt, getCalls @ [CrtCall domain], store)
              | CrtResponse ok body \<Rightarrow>
                  if \<not> ok then (zeroCt, getCalls @ [CrtCall domain], store)
                  else
                    (case body of
                       TextThrows \<Rightarrow> (zeroCt, getCalls @ [CrtCall domain], store)
                     | BlankText \<Rightarrow> (zeroCt, getCalls @ [CrtCall domain], store)
                     | Unparsable \<Rightarrow> (zeroCt, getCalls @ [CrtCall domain], store)
                     | Entries entries \<Rightarrow>
                         (let result = ctResult domain nowFilter entries;
                              entry = \<lparr>subdomains = subdomains result,
                                       totalCerts = totalCerts result,
                                       activeCerts = activeCerts result,
                                       cachedAt = nowStore\<rparr>;
                              setCalls = (if kvOpens store then [KvSet cacheKey] else []);
                              store' = (if kvOpens store \<and> \<not> kvSetThrows store
                                        then store\<lparr>kvEntries := (kvEntries store)(cacheKey \<mapsto> entry)\<rparr>
                                        else store)
                          in (\<lparr>subdomains = subdomains result, totalCerts = totalCerts result,
                               activeCerts = activeCerts result, cached = None\<rparr>,
                              getCalls @ [CrtCall domain] @ setCalls, store')))))"

section \<open>The handler: filtering and assembly\<close>

text \<open>Subdomains that have CNAME records, over the raw results.\<close>

definition subdomainsWithCname :: "QueryResult list \<Rightarrow> string list" where
  "subdomainsWithCname results =
     foldl (\<lambda>s result.
              if list_ex (\<lambda>r. rtype r = ''CNAME'') (records result)
              then setAdd s (subdomain result) else s)
       [] results"

text \<open>The CT subdomains that are not static ones, in the order they are queried.\<close>

definition staticSubdomains :: "string list" where
  "staticSubdomains = newSet (map fst QUERIES_TO_RUN)"

definition ctSubdomainsOf :: "CtData option \<Rightarrow> string list" where
  "ctSubdomainsOf ctData =
     (case ctData of
        None \<Rightarrow> []
      | Some d \<Rightarrow> filter (\<lambda>s. \<not> has staticSubdomains s) (subdomains d))"

definition queriesToRun :: "string list \<Rightarrow> (string \<times> RecordType list) list" where
  "queriesToRun ctSubdomains =
     QUERIES_TO_RUN @ map (\<lambda>s. (s, [TypeA, TypeAAAA, TypeCNAME])) ctSubdomains"

definition wildcardFilteredSubdomains :: "string list \<Rightarrow> string list" where
  "wildcardFilteredSubdomains ctSubdomains = newSet (WILDCARD_FILTERED_SUBDOMAINS @ ctSubdomains)"

text \<open>Records that match the wildcard targets are filtered out (false positives).\<close>

definition wildcardFilter :: "WildcardInfo \<Rightarrow> string list \<Rightarrow> QueryResult \<Rightarrow> DnsRecord list" where
  "wildcardFilter wildcard filtered result =
     (if hasWildcard wildcard \<and> has filtered (subdomain result) then
        filter (\<lambda>r. if \<not> has WILDCARD_AFFECTED_TYPES (rtype r) then True
                    else (let v = (case rvalue r of StringValue s \<Rightarrow> s | _ \<Rightarrow> [])
                          in \<not> has (wildcardTargets wildcard) v))
          (records result)
      else records result)"

text \<open>If the subdomain has a CNAME, only the CNAME records are kept.\<close>

definition cnameFilter :: "string list \<Rightarrow> QueryResult \<Rightarrow> DnsRecord list \<Rightarrow> DnsRecord list" where
  "cnameFilter withCname result filteredRecords =
     (if has withCname (subdomain result)
      then filter (\<lambda>r. rtype r = ''CNAME'') filteredRecords else filteredRecords)"

text \<open>What one result adds to \<^verbatim>\<open>allRecords\<close>: one pass of the second loop.\<close>

definition resultRecords ::
  "WildcardInfo \<Rightarrow> string list \<Rightarrow> string list \<Rightarrow> QueryResult \<Rightarrow> DnsRecord list" where
  "resultRecords wildcard filtered withCname result =
     (if length (records result) = 0 then []
      else map (\<lambda>r. \<lparr>rname = subdomain result, rtype = rtype r, ttl = ttl r, rvalue = rvalue r\<rparr>)
             (cnameFilter withCname result (wildcardFilter wildcard filtered result)))"

definition allRecords :: "WildcardInfo \<Rightarrow> string list \<Rightarrow> QueryResult list \<Rightarrow> DnsRecord list" where
  "allRecords wildcard ctSubdomains results =
     concat (map (resultRecords wildcard (wildcardFilteredSubdomains ctSubdomains)
                    (subdomainsWithCname results)) results)"

text \<open>
  \<^verbatim>\<open>a.localeCompare(b)\<close> is the platform's collation, which is not part of the
  program. A collation orders strings by their sort keys: the parameter \<open>k\<close> gives the
  sort key of each string, and two strings compare as their keys do. Two different
  strings may have the same key, and then they compare equal.
\<close>

definition localeCompare :: "(string \<Rightarrow> nat list) \<Rightarrow> string \<Rightarrow> string \<Rightarrow> int" where
  "localeCompare k a b = (if k a < k b then - 1 else if k a = k b then 0 else 1)"

text \<open>The comparison function of the sort: \<open>@\<close> first, then by name, then by type.\<close>

definition compareRecords ::
  "(string \<Rightarrow> nat list) \<Rightarrow> DnsRecord \<Rightarrow> DnsRecord \<Rightarrow> int" where
  "compareRecords k a b =
     (if rname a = ''@'' \<and> rname b \<noteq> ''@'' then - 1
      else if rname a \<noteq> ''@'' \<and> rname b = ''@'' then 1
      else if rname a \<noteq> rname b then localeCompare k (rname a) (rname b)
      else localeCompare k (rtype a) (rtype b))"

text \<open>
  \<^verbatim>\<open>Array.prototype.sort\<close> is a stable sort: an element goes before the first one
  it does not come after. Where the comparison function is consistent on the elements
  this is the list every conforming sort returns.
\<close>

fun insertBy :: "('a \<Rightarrow> 'a \<Rightarrow> int) \<Rightarrow> 'a \<Rightarrow> 'a list \<Rightarrow> 'a list" where
  "insertBy cmp x [] = [x]"
| "insertBy cmp x (y # ys) = (if cmp x y \<le> 0 then x # y # ys else y # insertBy cmp x ys)"

definition sortBy :: "('a \<Rightarrow> 'a \<Rightarrow> int) \<Rightarrow> 'a list \<Rightarrow> 'a list" where
  "sortBy cmp xs = foldr (insertBy cmp) xs []"

definition sortedRecords ::
  "(string \<Rightarrow> nat list) \<Rightarrow> WildcardInfo \<Rightarrow> string list \<Rightarrow> QueryResult list
     \<Rightarrow> DnsRecord list" where
  "sortedRecords k wildcard ctSubdomains results =
     sortBy (compareRecords k) (allRecords wildcard ctSubdomains results)"

section \<open>The handler\<close>

text \<open>
  The query parameters, each \<^verbatim>\<open>url.searchParams.get(...)\<close>: \<open>None\<close> is \<^verbatim>\<open>null\<close>.
\<close>

record request =
  domainParam :: "string option"
  resolverParam :: "string option"
  dnssecParam :: "string option"
  ctParam :: "string option"

text \<open>
  What the handler reads from outside: the resolvers, crt.sh, the KV store, the clock
  (at the cache lookup, the expiry filter, the cache write and the wildcard probe), the
  time the scan took and the sort keys of the collation of \<^verbatim>\<open>localeCompare\<close>.
\<close>

record world =
  wNet :: "dnsRequest \<Rightarrow> dnsFetch"
  wCrt :: "string \<Rightarrow> crtFetch"
  wKv :: kvStore
  wNowLookup :: int
  wNowFilter :: int
  wNowStore :: int
  wNowProbe :: int
  wElapsed :: int
  wCollation :: "string \<Rightarrow> nat list"

record WildcardView =
  detected :: bool
  cname :: "string option"
  targets :: "string list"

record DnssecView =
  enabled :: bool
  valid :: bool

record CtView =
  ctEnabled :: bool
  ctTotalCerts :: nat
  ctActiveCerts :: nat
  discoveredSubdomains :: nat
  ctCached :: bool

text \<open>The body of a successful response; an absent field is \<open>None\<close>.\<close>

record ScanBody =
  resDomain :: string
  resResolver :: string
  resQueryTime :: int
  resRecords :: "DnsRecord list"
  resTotalRecords :: nat
  resWildcard :: "WildcardView option"
  resDnssec :: "DnssecView option"
  resCt :: "CtView option"

text \<open>
  \<^verbatim>\<open>Response.json({success: false, error}, {status})\<close> and
  \<^verbatim>\<open>Response.json({success: true, ...})\<close>, whose status is 200.
\<close>

datatype response = ErrorJson nat string | SuccessJson ScanBody

text \<open>\<^verbatim>\<open>.replace(/^https?:\/\//, "")\<close>.\<close>

definition stripScheme :: "string \<Rightarrow> string" where
  "stripScheme s =
     (if startsWith s ''http://'' then drop 7 s
      else if startsWith s ''https://'' then drop 8 s else s)"

text \<open>
  \<^verbatim>\<open>.replace(/\/.*$/, "")\<close>: the text is cut at the first slash that no line
  terminator follows (\<^verbatim>\<open>.\<close> does not match one).
\<close>

fun stripPath :: "string \<Rightarrow> string" where
  "stripPath [] = []"
| "stripPath (c # cs) =
     (if c = CHR ''/'' \<and> \<not> list_ex isLineTerminator cs then [] else c # stripPath cs)"

definition cleanDomainOf :: "string \<Rightarrow> string" where
  "cleanDomainOf d = stripPath (stripScheme (toLowerCase (trim d)))"

text \<open>\<^verbatim>\<open>Promise.all\<close>: the values, or the first rejection.\<close>

fun awaitAll :: "(thrown + 'a) list \<Rightarrow> thrown + 'a list" where
  "awaitAll [] = Inr []"
| "awaitAll (p # ps) =
     (case p of
        Inl e \<Rightarrow> Inl e
      | Inr v \<Rightarrow> (case awaitAll ps of Inl e \<Rightarrow> Inl e | Inr vs \<Rightarrow> Inr (v # vs)))"

text \<open>The pairs of the two nested loops over \<^verbatim>\<open>queriesToRun\<close>.\<close>

definition workItems :: "(string \<times> RecordType list) list \<Rightarrow> (string \<times> RecordType) list" where
  "workItems queries = concat (map (\<lambda>q. map (\<lambda>t. (fst q, t)) (snd q)) queries)"

definition queryPromises ::
  "(dnsRequest \<Rightarrow> dnsFetch) \<Rightarrow> string \<Rightarrow> Resolver \<Rightarrow> bool \<Rightarrow> (string \<times> RecordType list) list
     \<Rightarrow> (thrown + QueryResult) list" where
  "queryPromises net cleanDomain resolver dnssecP queries =
     map (\<lambda>q. queryDns net cleanDomain (fst q) (snd q) resolver dnssecP) (workItems queries)"

definition queryCalls ::
  "string \<Rightarrow> Resolver \<Rightarrow> bool \<Rightarrow> (string \<times> RecordType list) list \<Rightarrow> dnsRequest list" where
  "queryCalls cleanDomain resolver dnssecP queries =
     map (\<lambda>q. queryDnsRequest cleanDomain (fst q) (snd q) resolver dnssecP) (workItems queries)"

text \<open>The CT step of the handler: only when \<^verbatim>\<open>ct=true\<close>.\<close>

definition scanCt :: "world \<Rightarrow> string \<Rightarrow> bool \<Rightarrow> CtData option \<times> call list \<times> kvStore" where
  "scanCt w cleanDomain ctP =
     (if ctP then
        (case fetchCtSubdomains (wKv w) (wCrt w) (wNowLookup w) (wNowFilter w) (wNowStore w)
                cleanDomain of
           (d, calls, kv') \<Rightarrow> (Some d, calls, kv'))
      else (None, [], wKv w))"

text \<open>The response of a scan, from the results of all the queries.\<close>

definition scanBody ::
  "world \<Rightarrow> string \<Rightarrow> Resolver \<Rightarrow> bool \<Rightarrow> CtData option \<Rightarrow> WildcardInfo \<Rightarrow> QueryResult list
     \<Rightarrow> ScanBody" where
  "scanBody w cleanDomain resolver dnssecP ctData wildcard results =
     (let ctSubdomains = ctSubdomainsOf ctData;
          sorted = sortedRecords (wCollation w) wildcard ctSubdomains results;
          dnssecValidAny = (dnssecP \<and> list_ex (\<lambda>r. dnssecValid r = Some True) results)
      in \<lparr>resDomain = cleanDomain,
          resResolver = resolverName resolver,
          resQueryTime = wElapsed w,
          resRecords = sorted,
          resTotalRecords = length sorted,
          resWildcard =
            (if hasWildcard wildcard
             then Some \<lparr>detected = True, cname = wildcardCname wildcard,
                        targets = wildcardTargets wildcard\<rparr>
             else None),
          resDnssec =
            (if dnssecP then Some \<lparr>enabled = True, valid = dnssecValidAny\<rparr> else None),
          resCt =
            (case ctData of
               None \<Rightarrow> None
             | Some d \<Rightarrow>
                 Some \<lparr>ctEnabled = True, ctTotalCerts = totalCerts d,
                       ctActiveCerts = activeCerts d,
                       discoveredSubdomains = length ctSubdomains,
                       ctCached = (cached d = Some True)\<rparr>)\<rparr>)"

text \<open>
  The handler after its check of \<^verbatim>\<open>domain\<close>. It gives the response (or the
  rejection of \<^verbatim>\<open>Promise.all\<close>), the calls made and the KV store left.
\<close>

text \<open>
  The \<^verbatim>\<open>results\<close> of the handler: the outcomes of all the dispatched queries, once
  \<^verbatim>\<open>Promise.all\<close> has settled.
\<close>

definition scanResults ::
  "world \<Rightarrow> string \<Rightarrow> Resolver \<Rightarrow> bool \<Rightarrow> CtData option \<Rightarrow> thrown + QueryResult list" where
  "scanResults w cleanDomain resolver dnssecP ctData =
     awaitAll (queryPromises (wNet w) cleanDomain resolver dnssecP
                 (queriesToRun (ctSubdomainsOf ctData)))"

definition scan ::
  "world \<Rightarrow> string \<Rightarrow> Resolver \<Rightarrow> bool \<Rightarrow> bool \<Rightarrow> (thrown + response) \<times> call list \<times> kvStore" where
  "scan w cleanDomain resolver dnssecP ctP =
     (case scanCt w cleanDomain ctP of
        (ctData, ctCalls, kv') \<Rightarrow>
          (let queries = queriesToRun (ctSubdomainsOf ctData);
               wildcard = detectWildcard (wNet w) (wNowProbe w) cleanDomain resolver;
               calls = ctCalls
                 @ map DnsCall (detectWildcardCalls (wNowProbe w) cleanDomain resolver)
                 @ map DnsCall (queryCalls cleanDomain resolver dnssecP queries)
           in case scanResults w cleanDomain resolver dnssecP ctData of
                Inl e \<Rightarrow> (Inl e, calls, kv')
              | Inr results \<Rightarrow>
                  (Inr (SuccessJson
                          (scanBody w cleanDomain resolver dnssecP ctData wildcard results)),
                   calls, kv')))"

text \<open>The resolver and the two flags, as the handler reads them from the query.\<close>

definition resolverOf :: "request \<Rightarrow> Resolver" where
  "resolverOf req =
     (let resolverP = (case resolverParam req of
                         None \<Rightarrow> ''google''
                       | Some r \<Rightarrow> if r = [] then ''google'' else r)
      in if resolverP = ''cloudflare'' then Cloudflare else Google)"

definition dnssecOf :: "request \<Rightarrow> bool" where
  "dnssecOf req = (dnssecParam req = Some ''true'')"

definition ctOf :: "request \<Rightarrow> bool" where
  "ctOf req = (ctParam req = Some ''true'')"

definition handler_GET :: "world \<Rightarrow> request \<Rightarrow> (thrown + response) \<times> call list \<times> kvStore" where
  "handler_GET w req =
     (case domainParam req of
        None \<Rightarrow> (Inr (ErrorJson 400 ''Domain is required''), [], wKv w)
      | Some d \<Rightarrow>
          if d = [] then (Inr (ErrorJson 400 ''Domain is required''), [], wKv w)
          else scan w (cleanDomainOf d) (resolverOf req) (dnssecOf req) (ctOf req))"

section \<open>An example zone\<close>

text \<open>
  Two collations: the one that compares code units, and one for which the control
  character U+0001 is ignorable, so that \<open>ab\<close> and \<open>a\<close>, U+0001, \<open>b\<close> compare equal.
\<close>

definition codeUnitKey :: "string \<Rightarrow> nat list" where
  "codeUnitKey s = map of_char s"


text \<open>
  A resolver that knows one name, \<open>www.example.com\<close> with an address record, and
  answers NXDOMAIN for every other question; a crt.sh that cannot be reached; no KV store.
\<close>

definition exampleNet :: "dnsRequest \<Rightarrow> dnsFetch" where
  "exampleNet rq =
     (if rq = DnsRequest ''https://dns.google/resolve'' ''www.example.com'' ''1'' True False
      then FetchResponse True 200
             (JsonValue \<lparr>Status = 0, AD = Some True,
                Answer = Some [\<lparr>aname = ''www.example.com.'', atype = 1, aTTL = 300,
                                adata = ''192.0.2.5''\<rparr>]\<rparr>)
      else FetchResponse True 200 (JsonValue \<lparr>Status = 3, AD = None, Answer = None\<rparr>))"

definition exampleWorld :: world where
  "exampleWorld =
     \<lparr>wNet = exampleNet, wCrt = (\<lambda>d. CrtThrows),
      wKv = \<lparr>kvOpens = False, kvGetThrows = False, kvSetThrows = False,
              kvEntries = (\<lambda>k. None)\<rparr>,
      wNowLookup = 0, wNowFilter = 0, wNowStore = 0, wNowProbe = 1700000000000,
      wElapsed = 42, wCollation = codeUnitKey\<rparr>"

definition exampleRequest :: request where
  "exampleRequest =
     \<lparr>domainParam = Some ''Example.com'', resolverParam = None,
      dnssecParam = Some ''true'', ctParam = None\<rparr>"

definition ftpNet :: "dnsRequest \<Rightarrow> dnsFetch" where
  "ftpNet rq =
     FetchResponse True 200
       (JsonValue \<lparr>Status = 0, AD = None,
          Answer = Some [\<lparr>aname = ''ftp.example.com.'', atype = 1, aTTL = 60,
                          adata = ''198.51.100.1''\<rparr>,
                         \<lparr>aname = ''ftp.example.com.'', atype = 1, aTTL = 60,
                          adata = ''192.0.2.5''\<rparr>]\<rparr>)"

text \<open>A wildcard that answers \<open>198.51.100.1\<close> and the alias \<open>lb.example.net\<close>.\<close>

definition exampleWildcard :: WildcardInfo where
  "exampleWildcard =
     \<lparr>hasWildcard = True, wildcardTargets = [''lb.example.net'', ''198.51.100.1''],
      wildcardCname = Some ''lb.example.net''\<rparr>"

definition noWildcard :: WildcardInfo where
  "noWildcard = \<lparr>hasWildcard = False, wildcardTargets = [], wildcardCname = None\<rparr>"

text \<open>
  Outcomes for \<open>www\<close>: its CNAME query answers the alias, its A query an address.
\<close>

definition wwwCname :: QueryResult where
  "wwwCname =
     \<lparr>subdomain = ''www'', qtype = ''CNAME'',
      records = [\<lparr>rname = ''www.example.com'', rtype = ''CNAME'', ttl = 300,
                  rvalue = StringValue ''lb.example.net''\<rparr>],
      error = None, dnssecValid = None\<rparr>"

definition wwwA :: QueryResult where
  "wwwA =
     \<lparr>subdomain = ''www'', qtype = ''A'',
      records = [\<lparr>rname = ''www.example.com'', rtype = ''A'', ttl = 300,
                  rvalue = StringValue ''192.0.2.5''\<rparr>],
      error = None, dnssecValid = None\<rparr>"

definition mailA :: QueryResult where
  "mailA =
     \<lparr>subdomain = ''mail'', qtype = ''A'',
      records = [\<lparr>rname = ''mail.example.com'', rtype = ''A'', ttl = 300,
                  rvalue = StringValue ''192.0.2.25''\<rparr>],
      error = None, dnssecValid = None\<rparr>"

definition apexTxt :: QueryResult where
  "apexTxt =
     \<lparr>subdomain = ''@'', qtype = ''TXT'',
      records = [\<lparr>rname = ''example.com'', rtype = ''TXT'', ttl = 300,
                  rvalue = StringValue ''v=spf1 -all''\<rparr>],
      error = None, dnssecValid = None\<rparr>"

definition dmarcTxt :: QueryResult where
  "dmarcTxt =
     \<lparr>subdomain = ''_dmarc'', qtype = ''TXT'',
      records = [\<lparr>rname = ''_dmarc.example.com'', rtype = ''TXT'', ttl = 300,
                  rvalue = StringValue ''198.51.100.1''\<rparr>],
      error = None, dnssecValid = None\<rparr>"

definition ftpResult :: QueryResult where
  "ftpResult =
     \<lparr>subdomain = ''ftp'', qtype = ''A'',
      records = [\<lparr>rname = ''ftp.example.com'', rtype = ''A'', ttl = 60,
                  rvalue = StringValue ''198.51.100.1''\<rparr>,
                 \<lparr>rname = ''ftp.example.com'', rtype = ''A'', ttl = 60,
                  rvalue = StringValue ''192.0.2.5''\<rparr>],
      error = None, dnssecValid = None\<rparr>"

text \<open>CT data that found \<open>staging\<close>, and also the static names \<open>_dmarc\<close> and \<open>www\<close>.\<close>

definition exampleCt :: CtData where
  "exampleCt =
     \<lparr>subdomains = [''staging'', ''_dmarc'', ''www''], totalCerts = 3, activeCerts = 3,
      cached = None\<rparr>"

text \<open>
  A crt.sh answer: an active certificate with seven names, and an expired one.
\<close>

definition exampleEntries :: "CrtShEntry list" where
  "exampleEntries =
     [\<lparr>name_value = ''WWW.Example.com'' @ [CHR 0x0A] @ ''*.example.com'' @ [CHR 0x0A]
                      @ ''example.com'' @ [CHR 0x0A] @ '' staging.example.com ''
                      @ [CHR 0x0A] @ ''www.example.com'' @ [CHR 0x0A]
                      @ ''user@mail.example.com'' @ [CHR 0x0A] @ ''other.org'',
       not_after = Some 2000\<rparr>,
      \<lparr>name_value = ''old.example.com'', not_after = Some 500\<rparr>]"

definition noStore :: kvStore where
  "noStore = \<lparr>kvOpens = False, kvGetThrows = False, kvSetThrows = False,
              kvEntries = (\<lambda>k. None)\<rparr>"

text \<open>A KV store that holds an entry for \<open>example.com\<close>, written at time 1000.\<close>

definition cacheStore :: kvStore where
  "cacheStore =
     \<lparr>kvOpens = True, kvGetThrows = False, kvSetThrows = False,
      kvEntries = (\<lambda>k. if k = [''ct'', ''example.com'']
                        then Some \<lparr>subdomains = [''staging''], totalCerts = 3,
                                   activeCerts = 2, cachedAt = 1000\<rparr>
                        else None)\<rparr>"









section \<open>The claims' own words\<close>

text \<open>
  The subdomains that have at least one CNAME record surviving wildcard filtering, as
  C1 words it; the handler computes \<open>subdomainsWithCname\<close> instead.
\<close>

definition survivingCnameSubdomains ::
  "WildcardInfo \<Rightarrow> string list \<Rightarrow> QueryResult list \<Rightarrow> string list" where
  "survivingCnameSubdomains wildcard filtered results =
     map subdomain
       (filter (\<lambda>result. list_ex (\<lambda>r. rtype r = ''CNAME'')
                           (wildcardFilter wildcard filtered result))
          results)"

text \<open>
  The names C6 accepts, as the code has it: \<open>name\<close> is \<open>sub\<close> followed by a dot and the
  domain, and \<open>sub\<close> is not empty, does not start with \<open>*\<close> and holds neither \<open>@\<close> nor
  a space.
\<close>

definition ctAccepts :: "string \<Rightarrow> string \<Rightarrow> string \<Rightarrow> bool" where
  "ctAccepts domain name sub =
     (name = sub @ ''.'' @ domain \<and> sub \<noteq> [] \<and> \<not> startsWith sub ''*''
      \<and> CHR ''@'' \<notin> set sub \<and> CHR '' '' \<notin> set sub)"




section \<open>Basic facts\<close>

declare natToString.simps [simp del]

lemma natToString_nonempty: "natToString n \<noteq> []"
  by (subst natToString.simps) simp

lemmas string_defs =
  cleanDomainOf_def trim_def isWhiteSpace_def toLowerCase_def lowerChar_def stripScheme_def
  startsWith_def endsWith_def isLineTerminator_def intToString_def natToString.simps
  stripTrailingDot_def stripQuotes_def sliceOffEnd_def

lemmas handler_defs =
  handler_GET_def scan_def scanCt_def scanBody_def resolverOf_def dnssecOf_def ctOf_def
  scanResults_def queryPromises_def queryCalls_def workItems_def queriesToRun_def
  QUERIES_TO_RUN_def ctSubdomainsOf_def staticSubdomains_def
  queryDns_def queryDnsTry_def queryDnsRequest_def parseRecord_def
  detectWildcard_def detectWildcardCalls_def typesToCheck_def probeRequest_def probeData_def
  wildcardResponse_def wildcardAnswer_def
  sortedRecords_def allRecords_def resultRecords_def cnameFilter_def wildcardFilter_def
  subdomainsWithCname_def wildcardFilteredSubdomains_def WILDCARD_FILTERED_SUBDOMAINS_def
  WILDCARD_AFFECTED_TYPES_def newSet_def setAdd_def has_def
  sortBy_def compareRecords_def localeCompare_def codeUnitKey_def

lemmas filter_defs =
  wildcardFilter_def wildcardFilteredSubdomains_def WILDCARD_FILTERED_SUBDOMAINS_def
  QUERIES_TO_RUN_def startsWith_def WILDCARD_AFFECTED_TYPES_def has_def

lemmas assembly_defs =
  allRecords_def resultRecords_def cnameFilter_def subdomainsWithCname_def setAdd_def
  sortedRecords_def sortBy_def compareRecords_def localeCompare_def codeUnitKey_def

lemma set_setAdd [simp]: "set (setAdd s x) = insert x (set s)"
  by (auto simp: setAdd_def)

lemma distinct_setAdd [simp]: "distinct s \<Longrightarrow> distinct (setAdd s x)"
  by (simp add: setAdd_def)

lemma set_foldl_setAdd: "set (foldl setAdd s xs) = set s \<union> set xs"
  by (induction xs arbitrary: s) auto

lemma set_newSet [simp]: "set (newSet xs) = set xs"
  by (simp add: newSet_def set_foldl_setAdd)

lemma has_newSet [simp]: "has (newSet xs) x = (x \<in> set xs)"
  by (simp add: has_def)

subsection \<open>The handler is a scan once the domain is there\<close>

lemma handler_GET_scan:
  assumes "domainParam req = Some d" and "d \<noteq> []"
  shows "handler_GET w req =
           scan w (cleanDomainOf d) (resolverOf req) (dnssecOf req) (ctOf req)"
  using assms by (simp add: handler_GET_def)

lemma handler_GET_rejects:
  assumes "domainParam req = None \<or> domainParam req = Some []"
  shows "handler_GET w req = (Inr (ErrorJson 400 ''Domain is required''), [], wKv w)"
  using assms by (auto simp: handler_GET_def)

lemma scan_success:
  assumes "fst (scan w d resolver dnssecP ctP) = Inr (SuccessJson body)"
  shows "\<exists>results.
           scanResults w d resolver dnssecP (fst (scanCt w d ctP)) = Inr results
           \<and> body = scanBody w d resolver dnssecP (fst (scanCt w d ctP))
                      (detectWildcard (wNet w) (wNowProbe w) d resolver) results"
  using assms unfolding scan_def Let_def
  by (cases "scanCt w d ctP") (auto split: sum.splits)

lemma handler_GET_success:
  assumes "fst (handler_GET w req) = Inr (SuccessJson body)"
  shows "\<exists>d. domainParam req = Some d \<and> d \<noteq> []
           \<and> fst (scan w (cleanDomainOf d) (resolverOf req) (dnssecOf req) (ctOf req))
               = Inr (SuccessJson body)"
proof (cases "domainParam req")
  case None
  with assms show ?thesis by (simp add: handler_GET_def)
next
  case (Some d)
  show ?thesis
  proof (cases "d = []")
    case True
    with assms Some show ?thesis by (simp add: handler_GET_def)
  next
    case False
    with assms Some handler_GET_scan [OF Some False, of w] show ?thesis by simp
  qed
qed

lemma scan_makes_calls: "fst (snd (scan w d resolver dnssecP ctP)) \<noteq> []"
  unfolding scan_def Let_def
  by (cases "scanCt w d ctP")
     (auto simp: detectWildcardCalls_def typesToCheck_def split: sum.splits)

lemma scan_no_error_response: "fst (scan w d resolver dnssecP ctP) \<noteq> Inr (ErrorJson n m)"
  unfolding scan_def Let_def
  by (cases "scanCt w d ctP") (auto split: sum.splits)

subsection \<open>The example zone, scanned\<close>

lemma example_response:
  "fst (handler_GET exampleWorld exampleRequest) =
     Inr (SuccessJson
           \<lparr>resDomain = ''example.com'', resResolver = ''google'', resQueryTime = 42,
            resRecords = [\<lparr>rname = ''www'', rtype = ''A'', ttl = 300,
                           rvalue = StringValue ''192.0.2.5''\<rparr>],
            resTotalRecords = 1, resWildcard = None,
            resDnssec = Some \<lparr>enabled = True, valid = True\<rparr>, resCt = None\<rparr>)"
  by (simp add: handler_defs exampleWorld_def exampleRequest_def exampleNet_def string_defs
        Let_def)

subsection \<open>What \<^verbatim>\<open>queryDns\<close> returns\<close>

lemma queryDns_returns: "\<exists>r. queryDns net domain sub t resolver dn = Inr r"
  by (auto simp: queryDns_def split: sum.splits)

lemma awaitAll_returns:
  assumes "\<forall>p\<in>set ps. \<exists>r. p = Inr r"
  shows "\<exists>rs. awaitAll ps = Inr rs"
  using assms by (induction ps) (auto split: sum.splits)

lemma scanResults_returns: "\<exists>results. scanResults w d resolver dn ctData = Inr results"
  unfolding scanResults_def queryPromises_def
  by (rule awaitAll_returns) (auto simp: queryDns_returns)

lemma handler_GET_returns: "\<exists>resp. fst (handler_GET w req) = Inr resp"
proof -
  have "\<exists>resp. fst (scan w d resolver dn ctP) = Inr resp" for d resolver dn ctP
    using scanResults_returns [of w d resolver dn "fst (scanCt w d ctP)"]
    unfolding scan_def Let_def
    by (cases "scanCt w d ctP") auto
  then show ?thesis
    by (auto simp: handler_GET_def split: option.splits)
qed


lemma queryDns_dnssecValid:
  "queryDns net domain sub t resolver dn = Inr r \<Longrightarrow>
   (dnssecValid r = Some True) =
     (\<exists>status data answers.
        net (queryDnsRequest domain sub t resolver dn) = FetchResponse True status (JsonValue data)
        \<and> Status data = 0 \<and> Answer data = Some answers \<and> AD data = Some True)"
  by (auto simp: queryDns_def queryDnsTry_def Let_def
           split: dnsFetch.splits jsonBody.splits if_splits option.splits)


lemma rtype_parseRecord [simp]: "rtype (parseRecord a t) = typeName t"
  by (simp add: parseRecord_def Let_def)


lemma parseRecord_structured:
  "(\<forall>s. rvalue (parseRecord a t) \<noteq> StringValue s) = (t \<in> {TypeMX, TypeSOA, TypeSRV})"
  by (cases t) (simp_all add: parseRecord_def Let_def)

lemma queryDns_structured:
  assumes "queryDns net domain sub t resolver dn = Inr result" and "x \<in> set (records result)"
  shows "(\<forall>s. rvalue x \<noteq> StringValue s) = (rtype x \<in> {''MX'', ''SOA'', ''SRV''})"
proof -
  from assms obtain a where x: "x = parseRecord a t"
    by (auto simp: queryDns_def queryDnsTry_def Let_def
             split: dnsFetch.splits jsonBody.splits if_splits option.splits)
  show ?thesis unfolding x parseRecord_structured by (cases t) simp_all
qed

subsection \<open>Filtering and assembly\<close>

lemma set_subdomainsWithCname_loop:
  "set (foldl (\<lambda>s result. if list_ex (\<lambda>r. rtype r = ''CNAME'') (records result)
                           then setAdd s (subdomain result) else s) acc results)
   = set acc \<union> {s. \<exists>r\<in>set results. subdomain r = s
                      \<and> (\<exists>x\<in>set (records r). rtype x = ''CNAME'')}"
  by (induction results arbitrary: acc) (auto simp: list_ex_iff)

lemma set_subdomainsWithCname:
  "set (subdomainsWithCname results)
   = {s. \<exists>r\<in>set results. subdomain r = s \<and> (\<exists>x\<in>set (records r). rtype x = ''CNAME'')}"
  by (simp add: subdomainsWithCname_def set_subdomainsWithCname_loop)

lemma wildcardFilter_subset:
  "set (wildcardFilter wildcard filtered result) \<subseteq> set (records result)"
  by (auto simp: wildcardFilter_def)

lemma affected_types:
  "has WILDCARD_AFFECTED_TYPES ty = (ty \<in> {''A'', ''AAAA'', ''CNAME'', ''TXT'', ''CAA''})"
  by (simp add: WILDCARD_AFFECTED_TYPES_def)

lemma mset_insertBy [simp]: "mset (insertBy cmp x ys) = add_mset x (mset ys)"
  by (induction ys) auto

lemma mset_sortBy [simp]: "mset (sortBy cmp xs) = mset xs"
  by (induction xs) (auto simp: sortBy_def)

lemma set_sortBy [simp]: "set (sortBy cmp xs) = set xs"
  by (metis mset_sortBy set_mset_mset)

lemma resultRecords_cname:
  assumes "x \<in> set (resultRecords wildcard filtered withCname r)"
    and "has withCname (subdomain r)"
  shows "rtype x = ''CNAME''"
  using assms by (auto simp: resultRecords_def cnameFilter_def split: if_splits)

lemma resultRecords_rname:
  assumes "x \<in> set (resultRecords wildcard filtered withCname r)"
  shows "rname x = subdomain r"
  using assms by (auto simp: resultRecords_def split: if_splits)

lemma allRecords_elem:
  assumes "x \<in> set (allRecords wildcard ct results)"
  shows "\<exists>r\<in>set results.
           x \<in> set (resultRecords wildcard (wildcardFilteredSubdomains ct)
                      (subdomainsWithCname results) r)"
  using assms by (auto simp: allRecords_def)

subsection \<open>The sort\<close>











lemma awaitAll_Inr: "awaitAll ps = Inr rs \<Longrightarrow> ps = map Inr rs"
  by (induction ps arbitrary: rs) (auto split: sum.splits)





















subsection \<open>The AD flag of the answers\<close>

lemma map_eq_list_all2:
  assumes "map f xs = map g ys"
  shows "list_all2 (\<lambda>x y. f x = g y) xs ys"
  using assms
proof (induction xs arbitrary: ys)
  case Nil
  then show ?case by simp
next
  case (Cons x xs)
  then show ?case by (cases ys) auto
qed

lemma scanResults_queries:
  assumes "scanResults w d resolver dn ctData = Inr results"
  shows "list_all2 (\<lambda>q r. queryDns (wNet w) d (fst q) (snd q) resolver dn = Inr r)
           (workItems (queriesToRun (ctSubdomainsOf ctData))) results"
  using awaitAll_Inr [OF assms [unfolded scanResults_def]]
  unfolding queryPromises_def by (rule map_eq_list_all2)

lemma dnssecValid_upstream:
  assumes "list_all2 (\<lambda>q r. queryDns net d (fst q) (snd q) resolver dn = Inr r) items results"
  shows "(\<exists>r\<in>set results. dnssecValid r = Some True)
       = (\<exists>q\<in>set items. \<exists>status data answers.
            net (queryDnsRequest d (fst q) (snd q) resolver dn)
              = FetchResponse True status (JsonValue data)
            \<and> Status data = 0 \<and> Answer data = Some answers \<and> AD data = Some True)"
  using assms
proof (induction rule: list_all2_induct)
  case Nil
  then show ?case by simp
next
  case (Cons q items r results)
  from queryDns_dnssecValid [OF Cons.hyps(1)] Cons.IH show ?case by simp
qed

subsection \<open>The second example zone, scanned\<close>



subsection \<open>Certificate Transparency discovery\<close>

lemma endsWith_iff: "endsWith s p = (\<exists>q. s = q @ p)"
proof
  assume "endsWith s p"
  then have "s = take (length s - length p) s @ p"
    by (metis append_take_drop_id endsWith_def)
  then show "\<exists>q. s = q @ p" by blast
next
  assume "\<exists>q. s = q @ p"
  then show "endsWith s p" by (auto simp: endsWith_def)
qed

lemma sliceOffEnd_append [simp]: "sliceOffEnd (q @ p) (length p) = q"
  by (simp add: sliceOffEnd_def)

lemma startsWith_star: "startsWith s ''*'' = (s \<noteq> [] \<and> hd s = CHR ''*'')"
  by (cases s) (auto simp: startsWith_def)

lemma set_ctName:
  "set (ctName domain acc name) = set acc \<union> {sub. ctAccepts domain name sub}"
proof (cases "endsWith name (''.'' @ domain)")
  case False
  then have "\<And>sub. \<not> ctAccepts domain name sub"
    by (auto simp: ctAccepts_def endsWith_iff)
  with False show ?thesis by (simp add: ctName_def)
next
  case True
  then obtain q where q: "name = q @ ''.'' @ domain"
    unfolding endsWith_iff by blast
  have s: "sliceOffEnd name (length domain + 1) = q"
    using sliceOffEnd_append [of q "''.'' @ domain"] q by simp
  have a: "\<And>sub. ctAccepts domain name sub =
             (sub = q \<and> q \<noteq> [] \<and> \<not> startsWith q ''*''
              \<and> CHR ''@'' \<notin> set q \<and> CHR '' '' \<notin> set q)"
    by (auto simp: ctAccepts_def q)
  have n: "name \<noteq> domain" "name \<noteq> []" using q by auto
  have st: "startsWith name ''*'' = (q \<noteq> [] \<and> startsWith q ''*'')"
    by (cases q) (auto simp: startsWith_def q)
  show ?thesis
    unfolding ctName_def Let_def s a using True n st
    by (auto simp: startsWith_star)
qed

lemma distinct_ctName: "distinct acc \<Longrightarrow> distinct (ctName domain acc name)"
  by (simp add: ctName_def Let_def)

lemma set_foldl_ctName:
  "set (foldl (ctName domain) acc names)
     = set acc \<union> {sub. \<exists>n\<in>set names. ctAccepts domain n sub}"
  by (induction names arbitrary: acc) (auto simp: set_ctName)

lemma distinct_foldl_ctName:
  "distinct acc \<Longrightarrow> distinct (foldl (ctName domain) acc names)"
  by (induction names arbitrary: acc) (auto simp: distinct_ctName)

lemma set_ctLoop:
  "set (foldl (\<lambda>subdomainSet entry. foldl (ctName domain) subdomainSet (entryNames entry))
          acc active)
   = set acc \<union> {sub. \<exists>e\<in>set active. \<exists>n\<in>set (entryNames e). ctAccepts domain n sub}"
  by (induction active arbitrary: acc) (auto simp: set_foldl_ctName)

lemma distinct_ctLoop:
  "distinct acc \<Longrightarrow>
   distinct (foldl (\<lambda>subdomainSet entry. foldl (ctName domain) subdomainSet (entryNames entry))
               acc active)"
  by (induction active arbitrary: acc) (auto simp: distinct_foldl_ctName)

lemma set_ctSubdomainSet:
  "set (ctSubdomainSet domain (activeCertsOf now entries))
     = {sub. \<exists>e\<in>set entries. (\<exists>t. not_after e = Some t \<and> now < t)
              \<and> (\<exists>n\<in>set (splitOn CHR 0x0A (name_value e)).
                    toLowerCase (trim n) = sub @ ''.'' @ domain)
              \<and> sub \<noteq> [] \<and> \<not> startsWith sub ''*''
              \<and> CHR ''@'' \<notin> set sub \<and> CHR '' '' \<notin> set sub}"
proof -
  have "set (ctSubdomainSet domain (activeCertsOf now entries))
          = {sub. \<exists>e\<in>set (activeCertsOf now entries). \<exists>n\<in>set (entryNames e).
                    ctAccepts domain n sub}"
    unfolding ctSubdomainSet_def set_ctLoop by simp
  also have "\<dots> = {sub. \<exists>e\<in>set entries. (\<exists>t. not_after e = Some t \<and> now < t)
              \<and> (\<exists>n\<in>set (splitOn CHR 0x0A (name_value e)).
                    toLowerCase (trim n) = sub @ ''.'' @ domain)
              \<and> sub \<noteq> [] \<and> \<not> startsWith sub ''*''
              \<and> CHR ''@'' \<notin> set sub \<and> CHR '' '' \<notin> set sub}"
  proof (intro Collect_cong iffI)
    fix sub
    assume "\<exists>e\<in>set (activeCertsOf now entries). \<exists>n\<in>set (entryNames e).
              ctAccepts domain n sub"
    then obtain e n where e: "e \<in> set (activeCertsOf now entries)"
      and n: "n \<in> set (entryNames e)" and a: "ctAccepts domain n sub" by blast
    from e obtain t where t: "e \<in> set entries" "not_after e = Some t" "now < t"
      by (auto simp: activeCertsOf_def split: option.splits)
    from n obtain m where m: "m \<in> set (splitOn CHR 0x0A (name_value e))"
        "n = toLowerCase (trim m)"
      by (auto simp: entryNames_def)
    from t m a show "\<exists>e\<in>set entries. (\<exists>t. not_after e = Some t \<and> now < t)
              \<and> (\<exists>n\<in>set (splitOn CHR 0x0A (name_value e)).
                    toLowerCase (trim n) = sub @ ''.'' @ domain)
              \<and> sub \<noteq> [] \<and> \<not> startsWith sub ''*''
              \<and> CHR ''@'' \<notin> set sub \<and> CHR '' '' \<notin> set sub"
      unfolding ctAccepts_def by blast
  next
    fix sub
    assume "\<exists>e\<in>set entries. (\<exists>t. not_after e = Some t \<and> now < t)
              \<and> (\<exists>n\<in>set (splitOn CHR 0x0A (name_value e)).
                    toLowerCase (trim n) = sub @ ''.'' @ domain)
              \<and> sub \<noteq> [] \<and> \<not> startsWith sub ''*''
              \<and> CHR ''@'' \<notin> set sub \<and> CHR '' '' \<notin> set sub"
    then obtain e t m where t: "e \<in> set entries" "not_after e = Some t" "now < t"
      and m: "m \<in> set (splitOn CHR 0x0A (name_value e))"
             "toLowerCase (trim m) = sub @ ''.'' @ domain"
      and s: "sub \<noteq> []" "\<not> startsWith sub ''*''" "CHR ''@'' \<notin> set sub"
             "CHR '' '' \<notin> set sub"
      by blast
    from t have e: "e \<in> set (activeCertsOf now entries)"
      by (simp add: activeCertsOf_def)
    from m(1) have n: "toLowerCase (trim m) \<in> set (entryNames e)"
      by (simp add: entryNames_def)
    from m s have "ctAccepts domain (toLowerCase (trim m)) sub"
      by (simp add: ctAccepts_def)
    with e n show "\<exists>e\<in>set (activeCertsOf now entries). \<exists>n\<in>set (entryNames e).
                     ctAccepts domain n sub"
      by blast
  qed
  finally show ?thesis .
qed

lemma distinct_ctSubdomainSet: "distinct (ctSubdomainSet domain active)"
  unfolding ctSubdomainSet_def by (rule distinct_ctLoop) simp

lemma fetchCtSubdomains_fresh:
  assumes "ctCacheRead store nowLookup [''ct'', domain] = None"
    and "crt domain = CrtResponse True (Entries entries)"
  shows "fst (fetchCtSubdomains store crt nowLookup now nowStore domain)
           = \<lparr>subdomains = ctSubdomainSet domain (activeCertsOf now entries),
              totalCerts = length entries,
              activeCerts = length (activeCertsOf now entries), cached = None\<rparr>"
  using assms by (simp add: fetchCtSubdomains_def ctResult_def Let_def)

section \<open>The claims\<close>

text \<open>
  C9. In every successful response, \<^verbatim>\<open>totalRecords\<close> is the number of entries of
  \<^verbatim>\<open>records\<close>, whatever the query outcomes, the wildcard result and the CT data.
\<close>

theorem C9_totalRecords:
  assumes "fst (handler_GET w req) = Inr (SuccessJson body)"
  shows "resTotalRecords body = length (resRecords body)"
proof -
  from handler_GET_success [OF assms] obtain d where
    "fst (scan w (cleanDomainOf d) (resolverOf req) (dnssecOf req) (ctOf req))
       = Inr (SuccessJson body)"
    by blast
  from scan_success [OF this] show ?thesis
    by (auto simp: scanBody_def Let_def)
qed

theorem C9_totalRecords_witness:
  "\<exists>body. fst (handler_GET exampleWorld exampleRequest) = Inr (SuccessJson body)
     \<and> resTotalRecords body = 1 \<and> length (resRecords body) = 1"
  using C9_totalRecords [OF example_response] example_response by simp

text \<open>
  C10. When the \<^verbatim>\<open>dnssec\<close> flag is requested, the response carries
  \<^verbatim>\<open>dnssec = {enabled: true, valid}\<close>, and \<^verbatim>\<open>valid\<close> is true exactly when at least
  one of the dispatched query outcomes carries \<^verbatim>\<open>dnssecValid = true\<close>, that is, when
  the resolver answered at least one of the dispatched queries with status zero, an answer
  section and the AD flag true; one such answer is enough. When the flag is not requested
  the \<^verbatim>\<open>dnssec\<close> field is absent.
\<close>

theorem C10_dnssec:
  assumes "fst (handler_GET w req) = Inr (SuccessJson body)"
  shows "\<exists>d results.
           domainParam req = Some d
           \<and> scanResults w (cleanDomainOf d) (resolverOf req) (dnssecOf req)
               (fst (scanCt w (cleanDomainOf d) (ctOf req))) = Inr results
           \<and> resDnssec body =
               (if dnssecParam req = Some ''true''
                then Some \<lparr>enabled = True,
                           valid = (\<exists>r\<in>set results. dnssecValid r = Some True)\<rparr>
                else None)
           \<and> (\<exists>r\<in>set results. dnssecValid r = Some True)
               = (\<exists>q\<in>set (workItems (queriesToRun
                     (ctSubdomainsOf (fst (scanCt w (cleanDomainOf d) (ctOf req)))))).
                    \<exists>status data answers.
                      wNet w (queryDnsRequest (cleanDomainOf d) (fst q) (snd q) (resolverOf req)
                                (dnssecOf req))
                        = FetchResponse True status (JsonValue data)
                      \<and> Status data = 0 \<and> Answer data = Some answers
                      \<and> AD data = Some True)"
proof -
  from handler_GET_success [OF assms] obtain d where
    d: "domainParam req = Some d"
    and s: "fst (scan w (cleanDomainOf d) (resolverOf req) (dnssecOf req) (ctOf req))
              = Inr (SuccessJson body)"
    by blast
  from scan_success [OF s] obtain results where
    r: "scanResults w (cleanDomainOf d) (resolverOf req) (dnssecOf req)
          (fst (scanCt w (cleanDomainOf d) (ctOf req))) = Inr results"
    and b: "body = scanBody w (cleanDomainOf d) (resolverOf req) (dnssecOf req)
                     (fst (scanCt w (cleanDomainOf d) (ctOf req)))
                     (detectWildcard (wNet w) (wNowProbe w) (cleanDomainOf d) (resolverOf req))
                     results"
    by blast
  have v: "resDnssec body =
          (if dnssecParam req = Some ''true''
           then Some \<lparr>enabled = True, valid = (\<exists>r\<in>set results. dnssecValid r = Some True)\<rparr>
           else None)"
    unfolding b by (simp add: scanBody_def Let_def dnssecOf_def list_ex_iff)
  note u = dnssecValid_upstream [OF scanResults_queries [OF r]]
  from d r v u show ?thesis by blast
qed

text \<open>
  In the example zone only the answer for the address of \<open>www\<close> has the AD flag, every
  other query is answered NXDOMAIN, and the response says \<^verbatim>\<open>valid = true\<close>.
\<close>

theorem C10_dnssec_witness:
  "(''www'', TypeA) \<in> set (workItems (queriesToRun []))
   \<and> wNet exampleWorld (queryDnsRequest ''example.com'' ''www'' TypeA Google True)
       = FetchResponse True 200
           (JsonValue \<lparr>Status = 0, AD = Some True,
              Answer = Some [\<lparr>aname = ''www.example.com.'', atype = 1, aTTL = 300,
                              adata = ''192.0.2.5''\<rparr>]\<rparr>)
   \<and> (\<exists>body results.
         fst (handler_GET exampleWorld exampleRequest) = Inr (SuccessJson body)
         \<and> scanResults exampleWorld ''example.com'' Google True None = Inr results
         \<and> (\<exists>r\<in>set results. dnssecValid r = Some True)
         \<and> resDnssec body = Some \<lparr>enabled = True, valid = True\<rparr>)"
proof -
  have i: "(''www'', TypeA) \<in> set (workItems (queriesToRun []))"
    by (simp add: workItems_def queriesToRun_def QUERIES_TO_RUN_def)
  have u: "wNet exampleWorld (queryDnsRequest ''example.com'' ''www'' TypeA Google True)
       = FetchResponse True 200
           (JsonValue \<lparr>Status = 0, AD = Some True,
              Answer = Some [\<lparr>aname = ''www.example.com.'', atype = 1, aTTL = 300,
                              adata = ''192.0.2.5''\<rparr>]\<rparr>)"
    by (simp add: exampleWorld_def exampleNet_def queryDnsRequest_def string_defs)
  have d: "domainParam exampleRequest = Some ''Example.com''"
    "dnssecParam exampleRequest = Some ''true''"
    "resolverOf exampleRequest = Google" "dnssecOf exampleRequest = True"
    "ctOf exampleRequest = False"
    by (simp_all add: exampleRequest_def resolverOf_def dnssecOf_def ctOf_def)
  have c: "cleanDomainOf ''Example.com'' = ''example.com''"
    by (simp add: string_defs)
  have s: "fst (scanCt exampleWorld ''example.com'' False) = None"
    by (simp add: scanCt_def)
  have e: "ctSubdomainsOf None = []"
    by (simp add: ctSubdomainsOf_def)
  from C10_dnssec [OF example_response] obtain d0 results where
    a: "domainParam exampleRequest = Some d0"
    and r0: "scanResults exampleWorld (cleanDomainOf d0) (resolverOf exampleRequest)
               (dnssecOf exampleRequest)
               (fst (scanCt exampleWorld (cleanDomainOf d0) (ctOf exampleRequest)))
             = Inr results"
    and v0: "(\<exists>r\<in>set results. dnssecValid r = Some True)
               = (\<exists>q\<in>set (workItems (queriesToRun
                     (ctSubdomainsOf (fst (scanCt exampleWorld (cleanDomainOf d0)
                                             (ctOf exampleRequest)))))).
                    \<exists>status data answers.
                      wNet exampleWorld
                        (queryDnsRequest (cleanDomainOf d0) (fst q) (snd q)
                           (resolverOf exampleRequest) (dnssecOf exampleRequest))
                        = FetchResponse True status (JsonValue data)
                      \<and> Status data = 0 \<and> Answer data = Some answers
                      \<and> AD data = Some True)"
    by blast
  from a d have d0: "d0 = ''Example.com''" by simp
  from r0 have r: "scanResults exampleWorld ''example.com'' Google True None = Inr results"
    by (simp add: d0 d c s)
  from v0 have v: "(\<exists>r\<in>set results. dnssecValid r = Some True)
               = (\<exists>q\<in>set (workItems (queriesToRun [])).
                    \<exists>status data answers.
                      wNet exampleWorld (queryDnsRequest ''example.com'' (fst q) (snd q) Google
                                True)
                        = FetchResponse True status (JsonValue data)
                      \<and> Status data = 0 \<and> Answer data = Some answers
                      \<and> AD data = Some True)"
    by (simp only: d0 d c s e)
  from i u have "\<exists>q\<in>set (workItems (queriesToRun [])).
                    \<exists>status data answers.
                      wNet exampleWorld (queryDnsRequest ''example.com'' (fst q) (snd q) Google
                                True)
                        = FetchResponse True status (JsonValue data)
                      \<and> Status data = 0 \<and> Answer data = Some answers
                      \<and> AD data = Some True"
    by (intro bexI [of _ "(''www'', TypeA)"]) auto
  with v have "\<exists>r\<in>set results. dnssecValid r = Some True" by simp
  with i u r example_response show ?thesis by simp
qed




text \<open>
  C5. A \<^verbatim>\<open>domain\<close> parameter that is missing, or empty once trimmed, lower-cased and
  stripped of scheme and path, is to be answered with
  \<^verbatim>\<open>{success: false, error: "Domain is required"}\<close> and no outbound call. The handler
  tests the parameter as it is received, before it cleans it: it refuses a missing or
  empty parameter (\<open>handler_GET_rejects\<close>), but a parameter of one space, or the bare
  scheme \<open>https://\<close>, is cleaned to the empty domain and scanned, with 72 outbound
  resolver queries and a successful response.
\<close>

theorem C5_blank_domain_scanned:
  "cleanDomainOf '' '' = []
   \<and> cleanDomainOf ''https://'' = []
   \<and> fst (handler_GET exampleWorld
            \<lparr>domainParam = Some '' '', resolverParam = None, dnssecParam = None,
             ctParam = None\<rparr>)
       = Inr (SuccessJson
               \<lparr>resDomain = [], resResolver = ''google'', resQueryTime = 42,
                resRecords = [], resTotalRecords = 0, resWildcard = None,
                resDnssec = None, resCt = None\<rparr>)
   \<and> length (fst (snd (handler_GET exampleWorld
                 \<lparr>domainParam = Some '' '', resolverParam = None, dnssecParam = None,
                  ctParam = None\<rparr>)))
       = 72
   \<and> handler_GET exampleWorld
        \<lparr>domainParam = Some ''https://'', resolverParam = None, dnssecParam = None,
         ctParam = None\<rparr>
       = handler_GET exampleWorld
           \<lparr>domainParam = Some '' '', resolverParam = None, dnssecParam = None,
            ctParam = None\<rparr>"
proof -
  have c: "cleanDomainOf '' '' = []" "cleanDomainOf ''https://'' = []"
    by (simp_all add: string_defs)
  have r: "fst (handler_GET exampleWorld
            \<lparr>domainParam = Some '' '', resolverParam = None, dnssecParam = None,
             ctParam = None\<rparr>)
       = Inr (SuccessJson
               \<lparr>resDomain = [], resResolver = ''google'', resQueryTime = 42,
                resRecords = [], resTotalRecords = 0, resWildcard = None,
                resDnssec = None, resCt = None\<rparr>)"
    by (simp add: handler_defs exampleWorld_def exampleNet_def string_defs Let_def)
  have n: "length (fst (snd (handler_GET exampleWorld
                 \<lparr>domainParam = Some '' '', resolverParam = None, dnssecParam = None,
                  ctParam = None\<rparr>)))
       = 72"
    by (simp add: handler_GET_def scan_def scanCt_def scanResults_def ctOf_def
          ctSubdomainsOf_def queryCalls_def workItems_def queriesToRun_def QUERIES_TO_RUN_def
          detectWildcardCalls_def typesToCheck_def Let_def split: sum.splits)
  have e: "handler_GET exampleWorld
        \<lparr>domainParam = Some ''https://'', resolverParam = None, dnssecParam = None,
         ctParam = None\<rparr>
       = handler_GET exampleWorld
           \<lparr>domainParam = Some '' '', resolverParam = None, dnssecParam = None,
            ctParam = None\<rparr>"
    by (simp add: handler_GET_def c resolverOf_def dnssecOf_def ctOf_def)
  from c r n e show ?thesis by blast
qed

text \<open>
  C1, as the code has it. The subdomains whose non-CNAME records are pruned are those
  with at least one CNAME record in a raw outcome, before wildcard filtering. Every
  subdomain with a CNAME record that survives wildcard filtering is among them; a record
  of the final list whose subdomain is among them is a CNAME record; and an outcome of
  any other subdomain keeps every record that wildcard filtering left.
\<close>

theorem C1_cname_pruning:
  "set (subdomainsWithCname results)
     = {s. \<exists>r\<in>set results. subdomain r = s \<and> (\<exists>x\<in>set (records r). rtype x = ''CNAME'')}
   \<and> set (survivingCnameSubdomains wildcard (wildcardFilteredSubdomains ct) results)
       \<subseteq> set (subdomainsWithCname results)
   \<and> (\<forall>x\<in>set (sortedRecords w wildcard ct results).
         rname x \<in> set (subdomainsWithCname results) \<longrightarrow> rtype x = ''CNAME'')
   \<and> (\<forall>r\<in>set results.
         subdomain r \<notin> set (subdomainsWithCname results) \<longrightarrow>
         resultRecords wildcard (wildcardFilteredSubdomains ct) (subdomainsWithCname results) r
           = map (\<lambda>x. \<lparr>rname = subdomain r, rtype = rtype x, ttl = ttl x, rvalue = rvalue x\<rparr>)
               (wildcardFilter wildcard (wildcardFilteredSubdomains ct) r))"
proof (intro conjI)
  show "set (subdomainsWithCname results)
     = {s. \<exists>r\<in>set results. subdomain r = s \<and> (\<exists>x\<in>set (records r). rtype x = ''CNAME'')}"
    by (rule set_subdomainsWithCname)
  show "set (survivingCnameSubdomains wildcard (wildcardFilteredSubdomains ct) results)
       \<subseteq> set (subdomainsWithCname results)"
    using wildcardFilter_subset
    by (fastforce simp: survivingCnameSubdomains_def set_subdomainsWithCname list_ex_iff)
  show "\<forall>x\<in>set (sortedRecords w wildcard ct results).
         rname x \<in> set (subdomainsWithCname results) \<longrightarrow> rtype x = ''CNAME''"
  proof (intro ballI impI)
    fix x
    assume x: "x \<in> set (sortedRecords w wildcard ct results)"
      and n: "rname x \<in> set (subdomainsWithCname results)"
    from x have "x \<in> set (allRecords wildcard ct results)"
      by (simp add: sortedRecords_def)
    from allRecords_elem [OF this] obtain r where
      r: "x \<in> set (resultRecords wildcard (wildcardFilteredSubdomains ct)
                     (subdomainsWithCname results) r)"
      by blast
    from resultRecords_rname [OF r] n have "has (subdomainsWithCname results) (subdomain r)"
      by (simp add: has_def)
    from resultRecords_cname [OF r this] show "rtype x = ''CNAME''" .
  qed
  show "\<forall>r\<in>set results.
         subdomain r \<notin> set (subdomainsWithCname results) \<longrightarrow>
         resultRecords wildcard (wildcardFilteredSubdomains ct) (subdomainsWithCname results) r
           = map (\<lambda>x. \<lparr>rname = subdomain r, rtype = rtype x, ttl = ttl x, rvalue = rvalue x\<rparr>)
               (wildcardFilter wildcard (wildcardFilteredSubdomains ct) r)"
    by (auto simp: resultRecords_def cnameFilter_def has_def wildcardFilter_def)
qed

text \<open>
  Without a wildcard: \<open>www\<close> has a CNAME and loses its address record, \<open>mail\<close> has
  none and keeps its own.
\<close>

theorem C1_cname_pruning_witness:
  "set (subdomainsWithCname [wwwA, mailA, wwwCname]) = {''www''}
   \<and> set (survivingCnameSubdomains noWildcard (wildcardFilteredSubdomains [])
            [wwwA, mailA, wwwCname]) = {''www''}
   \<and> sortedRecords codeUnitKey noWildcard [] [wwwA, mailA, wwwCname]
       = [\<lparr>rname = ''mail'', rtype = ''A'', ttl = 300, rvalue = StringValue ''192.0.2.25''\<rparr>,
          \<lparr>rname = ''www'', rtype = ''CNAME'', ttl = 300,
           rvalue = StringValue ''lb.example.net''\<rparr>]"
proof -
  have a: "set (survivingCnameSubdomains noWildcard (wildcardFilteredSubdomains [])
            [wwwA, mailA, wwwCname]) = {''www''}"
    by (simp add: survivingCnameSubdomains_def wildcardFilter_def noWildcard_def wwwA_def
          mailA_def wwwCname_def)
  have b: "sortedRecords codeUnitKey noWildcard [] [wwwA, mailA, wwwCname]
       = [\<lparr>rname = ''mail'', rtype = ''A'', ttl = 300, rvalue = StringValue ''192.0.2.25''\<rparr>,
          \<lparr>rname = ''www'', rtype = ''CNAME'', ttl = 300,
           rvalue = StringValue ''lb.example.net''\<rparr>]"
    by (simp add: assembly_defs wildcardFilter_def has_def noWildcard_def wwwA_def mailA_def
          wwwCname_def)
  have "set (subdomainsWithCname [wwwA, mailA, wwwCname])
          = {s. \<exists>r\<in>set [wwwA, mailA, wwwCname]. subdomain r = s
                  \<and> (\<exists>x\<in>set (records r). rtype x = ''CNAME'')}"
    using C1_cname_pruning [of "[wwwA, mailA, wwwCname]" noWildcard "[]" codeUnitKey] by blast
  also have "\<dots> = {''www''}"
    by (auto simp: wwwA_def mailA_def wwwCname_def)
  finally show ?thesis using a b by simp
qed

text \<open>
  C1 as stated fails. With the example wildcard the only CNAME record of \<open>www\<close> is
  removed as a false positive, so no CNAME record of \<open>www\<close> survives; its address record
  survives wildcard filtering, and yet it is pruned: the final list is empty.
\<close>

theorem C1_counterexample:
  "set (survivingCnameSubdomains exampleWildcard (wildcardFilteredSubdomains [])
          [wwwCname, wwwA]) = {}
   \<and> set (subdomainsWithCname [wwwCname, wwwA]) = {''www''}
   \<and> wildcardFilter exampleWildcard (wildcardFilteredSubdomains []) wwwCname = []
   \<and> wildcardFilter exampleWildcard (wildcardFilteredSubdomains []) wwwA = records wwwA
   \<and> records wwwA \<noteq> []
   \<and> sortedRecords codeUnitKey exampleWildcard [] [wwwCname, wwwA] = []"
proof -
  have c: "wildcardFilter exampleWildcard (wildcardFilteredSubdomains []) wwwCname = []"
    by (simp add: filter_defs exampleWildcard_def wwwCname_def)
  have a: "wildcardFilter exampleWildcard (wildcardFilteredSubdomains []) wwwA = records wwwA"
    by (simp add: filter_defs exampleWildcard_def wwwA_def)
  have ra: "records wwwA = [\<lparr>rname = ''www.example.com'', rtype = ''A'', ttl = 300,
                  rvalue = StringValue ''192.0.2.5''\<rparr>]"
    by (simp add: wwwA_def)
  have sa: "subdomain wwwA = ''www''"
    by (simp add: wwwA_def)
  have n: "records wwwA \<noteq> []"
    by (simp add: ra)
  have s: "set (survivingCnameSubdomains exampleWildcard (wildcardFilteredSubdomains [])
          [wwwCname, wwwA]) = {}"
    by (simp add: survivingCnameSubdomains_def c a ra)
  have w: "set (subdomainsWithCname [wwwCname, wwwA]) = {''www''}"
    by (simp add: subdomainsWithCname_def wwwA_def wwwCname_def)
  have f: "sortedRecords codeUnitKey exampleWildcard [] [wwwCname, wwwA] = []"
    by (simp add: sortedRecords_def allRecords_def resultRecords_def cnameFilter_def c a
          has_def w sortBy_def ra sa)
  from c a n s w f show ?thesis by blast
qed

text \<open>
  C2. When a wildcard is detected, a record of an outcome of a filter-eligible subdomain
  is dropped if and only if its type is one of A, AAAA, CNAME, TXT, CAA and its string
  value is one of the wildcard's targets; records with the structured MX, SOA or SRV
  values are never dropped. The outcomes are those \<^verbatim>\<open>queryDns\<close> returns.
\<close>

theorem C2_wildcard_filter:
  assumes q: "queryDns net domain sub t resolver dn = Inr result"
    and w: "hasWildcard wildcard"
    and e: "has (wildcardFilteredSubdomains ct) (subdomain result)"
  shows "wildcardFilter wildcard (wildcardFilteredSubdomains ct) result =
           filter (\<lambda>r. \<not> (rtype r \<in> {''A'', ''AAAA'', ''CNAME'', ''TXT'', ''CAA''}
                          \<and> (\<exists>s. rvalue r = StringValue s
                                  \<and> s \<in> set (wildcardTargets wildcard))))
             (records result)
         \<and> (\<forall>r\<in>set (records result).
               rtype r \<in> {''MX'', ''SOA'', ''SRV''} \<or> (\<forall>s. rvalue r \<noteq> StringValue s) \<longrightarrow>
               r \<in> set (wildcardFilter wildcard (wildcardFilteredSubdomains ct) result))"
proof -
  have s: "\<And>x. x \<in> set (records result) \<Longrightarrow>
             (\<forall>s. rvalue x \<noteq> StringValue s) = (rtype x \<in> {''MX'', ''SOA'', ''SRV''})"
    using queryDns_structured [OF q] by blast
  have f: "wildcardFilter wildcard (wildcardFilteredSubdomains ct) result =
           filter (\<lambda>r. \<not> (rtype r \<in> {''A'', ''AAAA'', ''CNAME'', ''TXT'', ''CAA''}
                          \<and> (\<exists>s. rvalue r = StringValue s
                                  \<and> s \<in> set (wildcardTargets wildcard))))
             (records result)"
    unfolding wildcardFilter_def using w e
    apply (simp add: affected_types Let_def)
    apply (rule filter_cong [OF refl])
    subgoal for x using s [of x]
      by (cases "rvalue x") (auto simp: has_def)
    done
  show ?thesis unfolding f using s by auto
qed

text \<open>
  The wildcard answers \<open>198.51.100.1\<close>: of the two address records of \<open>ftp\<close> the one
  with that value is dropped, the one with \<open>192.0.2.5\<close> stays.
\<close>

theorem C2_wildcard_filter_witness:
  "queryDns ftpNet ''example.com'' ''ftp'' TypeA Google False = Inr ftpResult
   \<and> hasWildcard exampleWildcard
   \<and> has (wildcardFilteredSubdomains []) (subdomain ftpResult)
   \<and> wildcardFilter exampleWildcard (wildcardFilteredSubdomains []) ftpResult
       = [\<lparr>rname = ''ftp.example.com'', rtype = ''A'', ttl = 60,
            rvalue = StringValue ''192.0.2.5''\<rparr>]"
proof -
  have q: "queryDns ftpNet ''example.com'' ''ftp'' TypeA Google False = Inr ftpResult"
    by (simp add: queryDns_def queryDnsTry_def ftpNet_def parseRecord_def string_defs
          ftpResult_def)
  have w: "hasWildcard exampleWildcard"
    by (simp add: exampleWildcard_def)
  have e: "has (wildcardFilteredSubdomains []) (subdomain ftpResult)"
    by (simp add: filter_defs ftpResult_def)
  have "wildcardFilter exampleWildcard (wildcardFilteredSubdomains []) ftpResult =
          filter (\<lambda>r. \<not> (rtype r \<in> {''A'', ''AAAA'', ''CNAME'', ''TXT'', ''CAA''}
                         \<and> (\<exists>s. rvalue r = StringValue s
                                 \<and> s \<in> set (wildcardTargets exampleWildcard))))
            (records ftpResult)"
    using C2_wildcard_filter [OF q w e] by (rule conjunct1)
  also have "\<dots> = [\<lparr>rname = ''ftp.example.com'', rtype = ''A'', ttl = 60,
                      rvalue = StringValue ''192.0.2.5''\<rparr>]"
    by (simp add: ftpResult_def exampleWildcard_def)
  finally show ?thesis using q w e by simp
qed

text \<open>
  C3, as the code has it. The subdomains eligible for wildcard filtering are exactly the
  subdomains of the static catalog other than \<open>@\<close> and other than those that begin with an
  underscore, together with every CT-discovered subdomain that is not already in the
  static catalog (such a subdomain is eligible even when it begins with an underscore).
  For an outcome of an ineligible subdomain no record is wildcard-filtered, whatever the
  wildcard; \<open>_dmarc\<close> is never eligible.
\<close>

theorem C3_eligible:
  "set (wildcardFilteredSubdomains (ctSubdomainsOf ctData))
     = {s \<in> fst ` set QUERIES_TO_RUN. s \<noteq> ''@'' \<and> \<not> startsWith s ''_''}
       \<union> set (ctSubdomainsOf ctData)
   \<and> set (ctSubdomainsOf ctData)
       = (case ctData of None \<Rightarrow> {} | Some d \<Rightarrow> set (subdomains d) - fst ` set QUERIES_TO_RUN)
   \<and> (\<not> has (wildcardFilteredSubdomains (ctSubdomainsOf ctData)) (subdomain result) \<longrightarrow>
        wildcardFilter wildcard (wildcardFilteredSubdomains (ctSubdomainsOf ctData)) result
          = records result)
   \<and> \<not> has (wildcardFilteredSubdomains (ctSubdomainsOf ctData)) ''_dmarc''"
proof (intro conjI)
  show "set (wildcardFilteredSubdomains (ctSubdomainsOf ctData))
     = {s \<in> fst ` set QUERIES_TO_RUN. s \<noteq> ''@'' \<and> \<not> startsWith s ''_''}
       \<union> set (ctSubdomainsOf ctData)"
    by (auto simp: wildcardFilteredSubdomains_def WILDCARD_FILTERED_SUBDOMAINS_def)
  show c: "set (ctSubdomainsOf ctData)
       = (case ctData of None \<Rightarrow> {} | Some d \<Rightarrow> set (subdomains d) - fst ` set QUERIES_TO_RUN)"
    by (auto simp: ctSubdomainsOf_def staticSubdomains_def has_def split: option.splits)
  show "\<not> has (wildcardFilteredSubdomains (ctSubdomainsOf ctData)) (subdomain result) \<longrightarrow>
        wildcardFilter wildcard (wildcardFilteredSubdomains (ctSubdomainsOf ctData)) result
          = records result"
    by (simp add: wildcardFilter_def)
  have "''_dmarc'' \<in> fst ` set QUERIES_TO_RUN"
    by (simp add: QUERIES_TO_RUN_def)
  then have "''_dmarc'' \<notin> set (ctSubdomainsOf ctData)"
    unfolding c by (simp split: option.splits)
  then show "\<not> has (wildcardFilteredSubdomains (ctSubdomainsOf ctData)) ''_dmarc''"
    by (simp add: has_def wildcardFilteredSubdomains_def WILDCARD_FILTERED_SUBDOMAINS_def
          startsWith_def)
qed

text \<open>
  CT found \<open>staging\<close>, \<open>_dmarc\<close> and \<open>www\<close>: \<open>staging\<close> and \<open>www\<close> are eligible,
  \<open>_dmarc\<close> is not, and its TXT record stays although its value is a wildcard target.
\<close>

theorem C3_eligible_witness:
  "ctSubdomainsOf (Some exampleCt) = [''staging'']
   \<and> has (wildcardFilteredSubdomains (ctSubdomainsOf (Some exampleCt))) ''staging''
   \<and> has (wildcardFilteredSubdomains (ctSubdomainsOf (Some exampleCt))) ''www''
   \<and> \<not> has (wildcardFilteredSubdomains (ctSubdomainsOf (Some exampleCt))) ''_dmarc''
   \<and> wildcardFilter exampleWildcard (wildcardFilteredSubdomains (ctSubdomainsOf (Some exampleCt)))
        dmarcTxt
       = records dmarcTxt"
proof -
  have c: "ctSubdomainsOf (Some exampleCt) = [''staging'']"
    by (simp add: ctSubdomainsOf_def exampleCt_def staticSubdomains_def QUERIES_TO_RUN_def
          has_def)
  have s: "has (wildcardFilteredSubdomains [''staging'']) ''staging''"
    by (simp add: wildcardFilteredSubdomains_def)
  have w: "has (wildcardFilteredSubdomains [''staging'']) ''www''"
    by (simp add: filter_defs)
  have d: "subdomain dmarcTxt = ''_dmarc''"
    by (simp add: dmarcTxt_def)
  from C3_eligible [of "Some exampleCt" dmarcTxt exampleWildcard]
  have "\<not> has (wildcardFilteredSubdomains (ctSubdomainsOf (Some exampleCt))) ''_dmarc''"
    and "\<not> has (wildcardFilteredSubdomains (ctSubdomainsOf (Some exampleCt))) (subdomain dmarcTxt) \<longrightarrow>
        wildcardFilter exampleWildcard (wildcardFilteredSubdomains (ctSubdomainsOf (Some exampleCt))) dmarcTxt
          = records dmarcTxt"
    by blast+
  with c s w d show ?thesis by simp
qed

text \<open>
  C3 as stated fails: a CT-discovered subdomain that is also a static underscore name,
  here \<open>_dmarc\<close> from a certificate for \<open>_dmarc.example.com\<close>, is not eligible.
\<close>

theorem C3_counterexample:
  "ctSubdomainSet ''example.com''
      [\<lparr>name_value = ''_dmarc.example.com'', not_after = Some 1\<rparr>] = [''_dmarc'']
   \<and> \<not> has (wildcardFilteredSubdomains
              (ctSubdomainsOf
                 (Some \<lparr>subdomains = [''_dmarc''], totalCerts = 1, activeCerts = 1,
                        cached = None\<rparr>)))
          ''_dmarc''"
proof -
  have a: "ctSubdomainSet ''example.com''
      [\<lparr>name_value = ''_dmarc.example.com'', not_after = Some 1\<rparr>] = [''_dmarc'']"
    by (simp add: ctSubdomainSet_def entryNames_def ctName_def string_defs setAdd_def)
  have b: "ctSubdomainsOf
                 (Some \<lparr>subdomains = [''_dmarc''], totalCerts = 1, activeCerts = 1,
                        cached = None\<rparr>) = []"
    by (simp add: ctSubdomainsOf_def staticSubdomains_def QUERIES_TO_RUN_def has_def)
  have c: "\<not> has (wildcardFilteredSubdomains []) ''_dmarc''"
    by (simp add: filter_defs)
  from a b c show ?thesis by simp
qed


text \<open>
  C6, as the code has it. CT discovery trims and lower-cases each subject name of each
  certificate whose expiration time is strictly after now. It rejects a name that is
  empty, starts with \<open>*\<close>, equals the domain, does not end with a dot and the domain, has
  nothing in front of that suffix, or whose part in front of the suffix holds \<open>@\<close> or a
  space character. Every other name, with the suffix removed, is in the set of discovered
  subdomains, which has no repetition; expired certificates contribute no names. This is
  the list \<^verbatim>\<open>fetchCtSubdomains\<close> returns when the cache does not answer and crt.sh does.
\<close>

theorem C6_ct_discovery:
  "set (ctSubdomainSet domain (activeCertsOf now entries))
     = {sub. \<exists>e\<in>set entries. (\<exists>t. not_after e = Some t \<and> now < t)
              \<and> (\<exists>n\<in>set (splitOn CHR 0x0A (name_value e)).
                    toLowerCase (trim n) = sub @ ''.'' @ domain)
              \<and> sub \<noteq> [] \<and> \<not> startsWith sub ''*''
              \<and> CHR ''@'' \<notin> set sub \<and> CHR '' '' \<notin> set sub}
   \<and> distinct (ctSubdomainSet domain (activeCertsOf now entries))
   \<and> (ctCacheRead store nowLookup [''ct'', domain] = None
        \<and> crt domain = CrtResponse True (Entries entries)
      \<longrightarrow> subdomains (fst (fetchCtSubdomains store crt nowLookup now nowStore domain))
            = ctSubdomainSet domain (activeCertsOf now entries))"
  using set_ctSubdomainSet [of domain now entries]
    distinct_ctSubdomainSet [of domain "activeCertsOf now entries"]
    fetchCtSubdomains_fresh [of store nowLookup domain crt entries now nowStore]
  by simp

text \<open>
  Of the names of the active certificate only \<open>www\<close> (twice, once in upper case) and
  \<open>staging\<close> are kept; \<open>old\<close> is on the expired certificate.
\<close>

theorem C6_ct_discovery_witness:
  "ctSubdomainSet ''example.com'' (activeCertsOf 1000 exampleEntries) = [''www'', ''staging'']
   \<and> subdomains (fst (fetchCtSubdomains noStore (\<lambda>d. CrtResponse True (Entries exampleEntries))
                        0 1000 0 ''example.com''))
       = [''www'', ''staging'']"
proof -
  have a: "ctSubdomainSet ''example.com'' (activeCertsOf 1000 exampleEntries)
             = [''www'', ''staging'']"
    by (simp add: ctSubdomainSet_def activeCertsOf_def exampleEntries_def entryNames_def
          ctName_def string_defs setAdd_def)
  have c: "ctCacheRead noStore 0 [''ct'', ''example.com''] = None"
    by (simp add: ctCacheRead_def noStore_def)
  from C6_ct_discovery [of "''example.com''" 1000 exampleEntries noStore 0
         "\<lambda>d. CrtResponse True (Entries exampleEntries)" 0] a c
  show ?thesis by simp
qed

text \<open>
  C6 as stated fails: a name with a tab, which is white space, is not rejected.
\<close>

theorem C6_counterexample:
  "isWhiteSpace (CHR 0x09)
   \<and> CHR 0x09 \<in> set ([CHR ''a'', CHR 0x09, CHR ''b''] @ ''.example.com'')
   \<and> ctSubdomainSet ''example.com''
        (activeCertsOf 1000
           [\<lparr>name_value = [CHR ''a'', CHR 0x09, CHR ''b''] @ ''.example.com'',
             not_after = Some 2000\<rparr>])
       = [[CHR ''a'', CHR 0x09, CHR ''b'']]"
  by (simp add: ctSubdomainSet_def activeCertsOf_def entryNames_def
          ctName_def string_defs setAdd_def)


text \<open>
  C7. If the store holds a cache entry for the domain and it is younger than one hour,
  \<^verbatim>\<open>fetchCtSubdomains\<close> returns that entry's subdomains and certificate counts unchanged
  with \<^verbatim>\<open>cached = true\<close>, and makes no call but the cache read. An entry aged one hour
  or more is treated as absent: the result and the calls are those of a store without the
  entry, crt.sh is asked, and the result never says \<^verbatim>\<open>cached = true\<close>.
\<close>

theorem C7_cache:
  assumes "kvOpens store" and "\<not> kvGetThrows store"
    and "kvEntries store [''ct'', domain] = Some v"
  shows "(nowLookup - cachedAt v < 60 * 60 * 1000 \<longrightarrow>
            fetchCtSubdomains store crt nowLookup nowFilter nowStore domain
              = (\<lparr>subdomains = subdomains v, totalCerts = totalCerts v,
                   activeCerts = activeCerts v, cached = Some True\<rparr>,
                 [KvGet [''ct'', domain]], store))
       \<and> (60 * 60 * 1000 \<le> nowLookup - cachedAt v \<longrightarrow>
            fst (fetchCtSubdomains store crt nowLookup nowFilter nowStore domain)
              = fst (fetchCtSubdomains
                       (store\<lparr>kvEntries := (kvEntries store)([''ct'', domain] := None)\<rparr>)
                       crt nowLookup nowFilter nowStore domain)
          \<and> fst (snd (fetchCtSubdomains store crt nowLookup nowFilter nowStore domain))
              = fst (snd (fetchCtSubdomains
                       (store\<lparr>kvEntries := (kvEntries store)([''ct'', domain] := None)\<rparr>)
                       crt nowLookup nowFilter nowStore domain))
          \<and> cached (fst (fetchCtSubdomains store crt nowLookup nowFilter nowStore domain))
              = None
          \<and> CrtCall domain
              \<in> set (fst (snd (fetchCtSubdomains store crt nowLookup nowFilter nowStore
                                  domain))))"
  using assms
  by (auto simp: fetchCtSubdomains_def ctCacheRead_def CT_CACHE_TTL_MS_def Let_def zeroCt_def
           split: crtFetch.splits crtBody.splits)

text \<open>
  The entry written at 1000 is served at 3600999 and is stale at 3601000, one hour after
  it was written: then crt.sh is asked and the result is written back.
\<close>

theorem C7_cache_witness:
  "fetchCtSubdomains cacheStore (\<lambda>d. CrtResponse True (Entries exampleEntries))
       3600999 3600999 3600999 ''example.com''
     = (\<lparr>subdomains = [''staging''], totalCerts = 3, activeCerts = 2, cached = Some True\<rparr>,
        [KvGet [''ct'', ''example.com'']], cacheStore)
   \<and> fst (fetchCtSubdomains cacheStore (\<lambda>d. CrtResponse True (Entries exampleEntries))
            3601000 1000 3601000 ''example.com'')
     = \<lparr>subdomains = [''www'', ''staging''], totalCerts = 2, activeCerts = 1, cached = None\<rparr>
   \<and> fst (snd (fetchCtSubdomains cacheStore (\<lambda>d. CrtResponse True (Entries exampleEntries))
                 3601000 1000 3601000 ''example.com''))
     = [KvGet [''ct'', ''example.com''], CrtCall ''example.com'',
        KvSet [''ct'', ''example.com'']]"
proof -
  have o: "kvOpens cacheStore" "\<not> kvGetThrows cacheStore"
    by (simp_all add: cacheStore_def)
  have e: "kvEntries cacheStore [''ct'', ''example.com'']
             = Some \<lparr>subdomains = [''staging''], totalCerts = 3, activeCerts = 2,
                      cachedAt = 1000\<rparr>"
    by (simp add: cacheStore_def)
  have a: "ctSubdomainSet ''example.com'' (activeCertsOf 1000 exampleEntries)
             = [''www'', ''staging'']"
    by (simp add: ctSubdomainSet_def activeCertsOf_def exampleEntries_def entryNames_def
          ctName_def string_defs setAdd_def)
  have l: "length exampleEntries = 2" "length (activeCertsOf 1000 exampleEntries) = 1"
    by (simp_all add: exampleEntries_def activeCertsOf_def)
  have hit: "fetchCtSubdomains cacheStore (\<lambda>d. CrtResponse True (Entries exampleEntries))
       3600999 3600999 3600999 ''example.com''
     = (\<lparr>subdomains = [''staging''], totalCerts = 3, activeCerts = 2, cached = Some True\<rparr>,
        [KvGet [''ct'', ''example.com'']], cacheStore)"
    using C7_cache [OF o e, of 3600999 "\<lambda>d. CrtResponse True (Entries exampleEntries)"
                      3600999 3600999]
    by simp
  have stale: "fst (fetchCtSubdomains cacheStore (\<lambda>d. CrtResponse True (Entries exampleEntries))
            3601000 1000 3601000 ''example.com'')
     = \<lparr>subdomains = [''www'', ''staging''], totalCerts = 2, activeCerts = 1, cached = None\<rparr>"
    by (simp add: fetchCtSubdomains_def ctCacheRead_def CT_CACHE_TTL_MS_def o e ctResult_def a l
          Let_def)
  have calls: "fst (snd (fetchCtSubdomains cacheStore (\<lambda>d. CrtResponse True (Entries exampleEntries))
                 3601000 1000 3601000 ''example.com''))
     = [KvGet [''ct'', ''example.com''], CrtCall ''example.com'',
        KvSet [''ct'', ''example.com'']]"
    by (simp add: fetchCtSubdomains_def ctCacheRead_def CT_CACHE_TTL_MS_def o e Let_def)
  from hit stale calls show ?thesis by blast
qed





end
